theory Spec2Isabelle
  imports Complex_Main
begin

text \<open>
  The annotation canvas of objectCounter: the component \<open>ItemCanvas\<close> (hover hit
  test, the two-click calibration buffer, vertex editing of the selected mask), the
  state and handlers of \<open>App\<close> that it calls back into (calibration record,
  detection result, physical measurements), and \<open>analyzeItems\<close> from the point
  where the reply of the detection service has been parsed. Drawing itself is not
  modelled; of \<open>render\<close> only the list of items it draws and the coordinate map it
  applies are kept.
\<close>

section \<open>JavaScript numbers\<close>

text \<open>
  Every coordinate, length and measurement of the program is a JavaScript \<open>number\<close>, an
  IEEE 754 binary64 value: a finite value \<open>Num r\<close> (with \<open>Num 0\<close> for \<open>+0\<close>), the negative
  zero, the two infinities, or \<open>NaN\<close>.
\<close>

datatype jsnum = Num real | NegZero | PosInf | NegInf | NaN

text \<open>The sign of an infinite or zero result.\<close>

definition signed_inf :: "bool \<Rightarrow> jsnum" where
  "signed_inf positive = (if positive then PosInf else NegInf)"

definition signed_zero :: "bool \<Rightarrow> jsnum" where
  "signed_zero neg = (if neg then NegZero else Num 0)"

subsection \<open>Rounding to binary64\<close>

text \<open>
  \<open>pow2 k\<close> is \<open>2\<^sup>k\<close> for an integer exponent. \<open>round_even\<close> rounds to the nearest
  integer, a tie to the even one. \<open>expo r\<close> is the binary exponent of the format for a
  real \<open>r\<close>, never below that of the subnormal range. \<open>fl r\<close> is the binary64 value of a
  non-zero real result \<open>r\<close>: the nearest multiple of \<open>2\<^bsup>expo r - 52\<^esup>\<close>, an infinity
  from \<open>2\<^sup>1\<^sup>0\<^sup>2\<^sup>4\<close> on, a zero of the sign of \<open>r\<close> on underflow.
\<close>

definition pow2 :: "int \<Rightarrow> real" where
  "pow2 k = (if 0 \<le> k then 2 ^ nat k else 1 / 2 ^ nat (- k))"

definition round_even :: "real \<Rightarrow> int" where
  "round_even v = (let f = \<lfloor>v\<rfloor> in
     if v - of_int f < 1 / 2 then f
     else if 1 / 2 < v - of_int f then f + 1
     else if even f then f else f + 1)"

definition expo :: "real \<Rightarrow> int" where
  "expo r = max \<lfloor>log 2 \<bar>r\<bar>\<rfloor> (- 1022)"

definition fl :: "real \<Rightarrow> jsnum" where
  "fl r = (if r = 0 then Num 0 else
     let q = pow2 (expo r - 52); v = of_int (round_even (\<bar>r\<bar> / q)) * q in
     if pow2 1024 \<le> v then signed_inf (0 < r)
     else if v = 0 then signed_zero (r < 0)
     else Num (sgn r * v))"

text \<open>\<open>Number.isFinite\<close>, the real value of a finite number and the sign bit.\<close>

fun isFinite :: "jsnum \<Rightarrow> bool" where
  "isFinite (Num r) = True"
| "isFinite NegZero = True"
| "isFinite v = False"

fun fval :: "jsnum \<Rightarrow> real" where
  "fval (Num r) = r"
| "fval v = 0"

fun negative :: "jsnum \<Rightarrow> bool" where
  "negative (Num r) = (r < 0)"
| "negative NegZero = True"
| "negative NegInf = True"
| "negative v = False"

subsection \<open>The arithmetic operators\<close>

text \<open>
  \<open>-\<close>, \<open>+\<close>, \<open>*\<close> and \<open>/\<close> of ECMAScript on numbers: the exact result rounded by \<open>fl\<close>;
  an exact zero sum is \<open>-0\<close> only when both operands are negative zeros, an exact
  zero product or quotient takes the sign of the operands; division by
  a zero gives an infinity or \<open>NaN\<close>, every operation on \<open>NaN\<close> gives \<open>NaN\<close>.
\<close>

fun fneg :: "jsnum \<Rightarrow> jsnum" where
  "fneg (Num a) = (if a = 0 then NegZero else Num (- a))"
| "fneg NegZero = Num 0"
| "fneg PosInf = NegInf"
| "fneg NegInf = PosInf"
| "fneg NaN = NaN"

definition fadd :: "jsnum \<Rightarrow> jsnum \<Rightarrow> jsnum" where
  "fadd a b =
     (if a = NaN \<or> b = NaN then NaN
      else if isFinite a \<and> isFinite b then
        (if fval a + fval b = 0 then signed_zero (negative a \<and> negative b)
         else fl (fval a + fval b))
      else if isFinite a then b
      else if isFinite b then a
      else if a = b then a else NaN)"

definition fsub :: "jsnum \<Rightarrow> jsnum \<Rightarrow> jsnum" where
  "fsub a b = fadd a (fneg b)"

definition fmul :: "jsnum \<Rightarrow> jsnum \<Rightarrow> jsnum" where
  "fmul a b =
     (if a = NaN \<or> b = NaN then NaN
      else if isFinite a \<and> isFinite b then
        (if fval a * fval b = 0 then signed_zero (negative a \<noteq> negative b)
         else fl (fval a * fval b))
      else if (isFinite a \<and> fval a = 0) \<or> (isFinite b \<and> fval b = 0) then NaN
      else signed_inf (negative a = negative b))"

definition fdiv :: "jsnum \<Rightarrow> jsnum \<Rightarrow> jsnum" where
  "fdiv a b =
     (if a = NaN \<or> b = NaN then NaN
      else if isFinite a then
        (if isFinite b then
           (if fval b = 0 then
              (if fval a = 0 then NaN else signed_inf (negative a = negative b))
            else if fval a = 0 then signed_zero (negative a \<noteq> negative b)
            else fl (fval a / fval b))
         else signed_zero (negative a \<noteq> negative b))
      else if isFinite b then signed_inf (negative a = negative b)
      else NaN)"

subsection \<open>The distance of the calibration handler\<close>

text \<open>
  The pixel distance and the scale of \<open>handleCalibrationUpdate\<close> are kept in exact real
  arithmetic on the finite values: \<open>jsub\<close>, \<open>jmul\<close>, \<open>jadd\<close>, \<open>jsqrt\<close> and \<open>jdiv\<close> do not
  round, do not overflow and give \<open>+0\<close> for every zero result with finite operands. The
  non-finite cases follow IEEE 754.
\<close>

fun jneg :: "jsnum \<Rightarrow> jsnum" where
  "jneg (Num a) = Num (- a)"
| "jneg NegZero = Num 0"
| "jneg PosInf = NegInf"
| "jneg NegInf = PosInf"
| "jneg NaN = NaN"

fun jadd :: "jsnum \<Rightarrow> jsnum \<Rightarrow> jsnum" where
  "jadd NaN b = NaN"
| "jadd a NaN = NaN"
| "jadd (Num a) (Num b) = Num (a + b)"
| "jadd NegZero (Num b) = Num b"
| "jadd (Num a) NegZero = Num a"
| "jadd NegZero NegZero = NegZero"
| "jadd PosInf NegInf = NaN"
| "jadd NegInf PosInf = NaN"
| "jadd PosInf b = PosInf"
| "jadd a PosInf = PosInf"
| "jadd NegInf b = NegInf"
| "jadd a NegInf = NegInf"

definition jsub :: "jsnum \<Rightarrow> jsnum \<Rightarrow> jsnum" where
  "jsub a b = jadd a (jneg b)"

fun jmul :: "jsnum \<Rightarrow> jsnum \<Rightarrow> jsnum" where
  "jmul NaN b = NaN"
| "jmul a NaN = NaN"
| "jmul (Num a) (Num b) = Num (a * b)"
| "jmul NegZero (Num b) = signed_zero (0 \<le> b)"
| "jmul (Num a) NegZero = signed_zero (0 \<le> a)"
| "jmul NegZero NegZero = Num 0"
| "jmul NegZero b = NaN"
| "jmul a NegZero = NaN"
| "jmul (Num a) PosInf = (if a = 0 then NaN else signed_inf (0 < a))"
| "jmul (Num a) NegInf = (if a = 0 then NaN else signed_inf (a < 0))"
| "jmul PosInf (Num b) = (if b = 0 then NaN else signed_inf (0 < b))"
| "jmul NegInf (Num b) = (if b = 0 then NaN else signed_inf (b < 0))"
| "jmul PosInf PosInf = PosInf"
| "jmul PosInf NegInf = NegInf"
| "jmul NegInf PosInf = NegInf"
| "jmul NegInf NegInf = PosInf"

fun jdiv :: "jsnum \<Rightarrow> jsnum \<Rightarrow> jsnum" where
  "jdiv NaN b = NaN"
| "jdiv a NaN = NaN"
| "jdiv (Num a) (Num b) =
     (if b = 0 then (if a = 0 then NaN else signed_inf (0 < a)) else Num (a / b))"
| "jdiv (Num a) NegZero = (if a = 0 then NaN else signed_inf (a < 0))"
| "jdiv NegZero (Num b) = (if b = 0 then NaN else signed_zero (0 < b))"
| "jdiv NegZero NegZero = NaN"
| "jdiv NegZero PosInf = NegZero"
| "jdiv NegZero NegInf = Num 0"
| "jdiv PosInf NegZero = NegInf"
| "jdiv NegInf NegZero = PosInf"
| "jdiv (Num a) PosInf = Num 0"
| "jdiv (Num a) NegInf = Num 0"
| "jdiv PosInf (Num b) = signed_inf (0 \<le> b)"
| "jdiv NegInf (Num b) = signed_inf (b < 0)"
| "jdiv PosInf b = NaN"
| "jdiv NegInf b = NaN"

fun jsqrt :: "jsnum \<Rightarrow> jsnum" where
  "jsqrt (Num a) = (if a < 0 then NaN else Num (sqrt a))"
| "jsqrt NegZero = NegZero"
| "jsqrt PosInf = PosInf"
| "jsqrt NegInf = NaN"
| "jsqrt NaN = NaN"

subsection \<open>Comparison, conversion and truthiness\<close>

text \<open>\<open>\<le>\<close> and \<open>\<ge>\<close> compare the values exactly; every comparison with \<open>NaN\<close> is false.\<close>

fun jle :: "jsnum \<Rightarrow> jsnum \<Rightarrow> bool" where
  "jle NaN b = False"
| "jle a NaN = False"
| "jle (Num a) (Num b) = (a \<le> b)"
| "jle NegZero (Num b) = (0 \<le> b)"
| "jle (Num a) NegZero = (a \<le> 0)"
| "jle NegZero NegZero = True"
| "jle NegInf b = True"
| "jle a PosInf = True"
| "jle PosInf b = False"
| "jle a NegInf = False"

definition jge :: "jsnum \<Rightarrow> jsnum \<Rightarrow> bool" where
  "jge a b = jle b a"

text \<open>
  \<open>Number(v.toFixed(2))\<close>. \<open>toFixed\<close> prints the non-finite values by name and
  \<open>Number\<close> reads them back; from \<open>10\<^sup>2\<^sup>1\<close> on it prints the shortest digits that read
  back as the number itself; below that it takes the integer \<open>n\<close> with \<open>n / 100\<close> nearest
  to the magnitude of the value, the larger one on a tie, prints \<open>n / 100\<close> with two
  decimals behind the sign of a negative value, and \<open>Number\<close> reads the decimal back as the
  nearest binary64 value.
\<close>

fun Number_toFixed2 :: "jsnum \<Rightarrow> jsnum" where
  "Number_toFixed2 (Num r) =
     (if 10 ^ 21 \<le> \<bar>r\<bar> then Num r
      else if r < 0 then fneg (fl (of_int \<lfloor>\<bar>r\<bar> * 100 + 1 / 2\<rfloor> / 100))
      else fl (of_int \<lfloor>\<bar>r\<bar> * 100 + 1 / 2\<rfloor> / 100))"
| "Number_toFixed2 NegZero = Num 0"
| "Number_toFixed2 PosInf = PosInf"
| "Number_toFixed2 NegInf = NegInf"
| "Number_toFixed2 NaN = NaN"

text \<open>Truthiness of \<open>number | null\<close>: \<open>null\<close>, both zeros and \<open>NaN\<close> are falsy.\<close>

fun truthy_num :: "jsnum option \<Rightarrow> bool" where
  "truthy_num None = False"
| "truthy_num (Some (Num r)) = (r \<noteq> 0)"
| "truthy_num (Some NegZero) = False"
| "truthy_num (Some NaN) = False"
| "truthy_num (Some v) = True"

text \<open>Truthiness of \<open>string | null\<close>: \<open>null\<close> and the empty string are falsy.\<close>

fun truthy_str :: "string option \<Rightarrow> bool" where
  "truthy_str None = False"
| "truthy_str (Some s) = (s \<noteq> [])"


section \<open>Data model (types.ts)\<close>

record Point =
  x :: jsnum
  y :: jsnum

text \<open>
  \<open>boundingBox\<close> is \<open>[ymin, xmin, ymax, xmax]\<close>; \<open>widthMm\<close> and \<open>heightMm\<close> are
  optional properties, \<open>None\<close> while absent. The fields \<open>id\<close> and \<open>mask\<close> are
  written \<open>id'\<close> and \<open>mask'\<close>.
\<close>

record ItemInstance =
  id' :: string
  boundingBox :: "jsnum \<times> jsnum \<times> jsnum \<times> jsnum"
  mask' :: "Point list"
  confidence :: jsnum
  areaPx :: jsnum
  widthMm :: "jsnum option"
  heightMm :: "jsnum option"
  label :: string

record CalibrationData =
  referenceLengthMm :: jsnum
  pixelsPerMm :: "jsnum option"
  startPoint :: "Point option"
  endPoint :: "Point option"

datatype ModelMode = PRO | FLASH

record Performance =
  latencyMs :: jsnum
  modelName :: string
  estimatedModelSizeMb :: jsnum

record Summary =
  totalCount :: nat
  averageConfidence :: jsnum
  totalAreaPx :: jsnum

record AnalysisResult =
  items :: "ItemInstance list"
  imageWidth :: jsnum
  imageHeight :: jsnum
  performance :: Performance
  summary :: Summary

datatype AppState = SETUP | IDLE | PROCESSING | REVIEW | CALIBRATING

section \<open>App.tsx: physical measurements\<close>

text \<open>
  \<open>updatePhysicalMetrics\<close>: each item is copied with \<open>widthMm\<close> and \<open>heightMm\<close>
  set from its bounding box; the multiplier 5 turns normalized units into the pixel
  estimate.
\<close>

definition updatePhysicalMetrics :: "ItemInstance list \<Rightarrow> jsnum \<Rightarrow> ItemInstance list" where
  "updatePhysicalMetrics its pxMm =
     map (\<lambda>s. case boundingBox s of (ymin, xmin, ymax, xmax) \<Rightarrow>
            let widthPx = fmul (fsub xmax xmin) (Num 5);
                heightPx = fmul (fsub ymax ymin) (Num 5)
            in s\<lparr>widthMm := Some (Number_toFixed2 (fdiv widthPx pxMm)),
                 heightMm := Some (Number_toFixed2 (fdiv heightPx pxMm))\<rparr>) its"

section \<open>ItemCanvas.tsx\<close>

text \<open>
  The canvas element as the handlers read it: the left and top of its bounding client
  rectangle and its pixel size. A pointer event carries \<open>clientX\<close> and \<open>clientY\<close>.
\<close>

record Canvas =
  rect_left :: jsnum
  rect_top :: jsnum
  width :: jsnum
  height :: jsnum

record MouseEvent =
  clientX :: jsnum
  clientY :: jsnum

text \<open>
  The props the handlers read. The names that the state of \<open>App\<close> also uses carry a
  prime here; the two optional callbacks are present or absent.
\<close>

record Props =
  result' :: "AnalysisResult option"
  selectedItemId' :: "string option"
  onCalibrationUpdate :: bool
  onMaskUpdate :: bool
  isCalibrating :: bool
  editMode' :: bool

text \<open>The component's own state (\<open>useState\<close>).\<close>

record CanvasState =
  hoveredItemId :: "string option"
  calPoints :: "Point list"

text \<open>
  What a handler does is the sequence of state setters and callbacks it calls, in
  order.
\<close>

datatype Call =
    SetHoveredItemId "string option"
  | SetCalPoints "Point list"
  | OnCalibrationUpdate Point Point
  | OnMaskUpdate string "Point list"
  | OnItemClick ItemInstance

text \<open>
  The two coordinate transforms, written inline in the source: \<open>render\<close> maps a mask
  vertex with \<open>(pt.x / 1000) * canvas.width\<close>, the pointer handlers map a point of the
  canvas with \<open>(x / canvas.width) * 1000\<close>.
\<close>

definition toRenderSpace :: "Point \<Rightarrow> Canvas \<Rightarrow> Point" where
  "toRenderSpace pt cv =
     \<lparr>x = fmul (fdiv (x pt) (Num 1000)) (width cv),
      y = fmul (fdiv (y pt) (Num 1000)) (height cv)\<rparr>"

definition toNormalized :: "Point \<Rightarrow> Canvas \<Rightarrow> Point" where
  "toNormalized pt cv =
     \<lparr>x = fmul (fdiv (x pt) (width cv)) (Num 1000),
      y = fmul (fdiv (y pt) (height cv)) (Num 1000)\<rparr>"

text \<open>The pointer position relative to the canvas: \<open>e.clientX - rect.left\<close>.\<close>

definition pointer :: "Canvas \<Rightarrow> MouseEvent \<Rightarrow> Point" where
  "pointer cv e = \<lparr>x = fsub (clientX e) (rect_left cv), y = fsub (clientY e) (rect_top cv)\<rparr>"

text \<open>The items \<open>render\<close> iterates over: all of the result, unless calibrating.\<close>

definition rendered_items :: "Props \<Rightarrow> ItemInstance list" where
  "rendered_items pr =
     (case result' pr of
        Some r \<Rightarrow> if \<not> isCalibrating pr then items r else []
      | None \<Rightarrow> [])"

text \<open>The predicate of \<open>find\<close> in \<open>handleMouseMove\<close>, on the normalized point.\<close>

definition bbox_contains :: "Point \<Rightarrow> ItemInstance \<Rightarrow> bool" where
  "bbox_contains pt s =
     (case boundingBox s of (ymin, xmin, ymax, xmax) \<Rightarrow>
        jge (x pt) xmin \<and> jle (x pt) xmax \<and> jge (y pt) ymin \<and> jle (y pt) ymax)"

definition hitTest :: "Canvas \<Rightarrow> MouseEvent \<Rightarrow> ItemInstance list \<Rightarrow> ItemInstance option" where
  "hitTest cv e its = find (bbox_contains (toNormalized (pointer cv e) cv)) its"

definition handleMouseMove :: "Props \<Rightarrow> Canvas option \<Rightarrow> MouseEvent \<Rightarrow> Call list" where
  "handleMouseMove pr canvas e =
     (if isCalibrating pr then []
      else case canvas of
        None \<Rightarrow> []
      | Some cv \<Rightarrow>
          (case result' pr of
             None \<Rightarrow> []
           | Some r \<Rightarrow>
               [SetHoveredItemId
                  (case hitTest cv e (items r) of
                     None \<Rightarrow> None
                   | Some found \<Rightarrow> if id' found \<noteq> [] then Some (id' found) else None)]))"

definition handleClick :: "Props \<Rightarrow> Canvas option \<Rightarrow> CanvasState \<Rightarrow> MouseEvent \<Rightarrow> Call list" where
  "handleClick pr canvas cs e =
     (case canvas of
        None \<Rightarrow> []
      | Some cv \<Rightarrow>
          if isCalibrating pr then
            (if length (calPoints cs) < 2 then
               (let newPoints = calPoints cs @ [pointer cv e]
                in SetCalPoints newPoints #
                   (if length newPoints = 2 \<and> onCalibrationUpdate pr
                    then [OnCalibrationUpdate (newPoints ! 0) (newPoints ! 1), SetCalPoints []]
                    else []))
             else [])
          else if editMode' pr \<and> truthy_str (selectedItemId' pr) \<and> result' pr \<noteq> None then
            (case result' pr of
               Some r \<Rightarrow>
                 (case find (\<lambda>i. Some (id' i) = selectedItemId' pr) (items r) of
                    Some item \<Rightarrow>
                      if onMaskUpdate pr
                      then [OnMaskUpdate (id' item) (mask' item @ [toNormalized (pointer cv e) cv])]
                      else []
                  | None \<Rightarrow> [])
             | None \<Rightarrow> [])
          else if truthy_str (hoveredItemId cs) \<and> result' pr \<noteq> None then
            (case result' pr of
               Some r \<Rightarrow>
                 (case find (\<lambda>s. Some (id' s) = hoveredItemId cs) (items r) of
                    Some item \<Rightarrow> [OnItemClick item]
                  | None \<Rightarrow> [])
             | None \<Rightarrow> [])
          else [])"

section \<open>The detection service boundary (geminiService.ts)\<close>

datatype js_error = TypeError

text \<open>
  An element of \<open>rawResult.items\<close> as \<open>JSON.parse\<close> returns it is \<open>null\<close> (\<open>None\<close>
  below) or an object. The cast to \<open>ItemInstance[]\<close> checks nothing, so the object may
  lack its \<open>boundingBox\<close>; the other required properties are taken as present.
\<close>

record RawItem =
  raw_id :: string
  raw_boundingBox :: "(jsnum \<times> jsnum \<times> jsnum \<times> jsnum) option"
  raw_mask :: "Point list"
  raw_confidence :: jsnum
  raw_areaPx :: jsnum
  raw_label :: string

record RawAnalysis =
  raw_items :: "RawItem list"
  raw_imageWidth :: jsnum
  raw_imageHeight :: jsnum
  raw_performance :: Performance
  raw_summary :: Summary

text \<open>
  \<open>analyzeItems\<close> after the response has been parsed: \<open>rawItems\<close> is
  \<open>rawResult.items\<close> (absent when the reply has no such property, and then reading
  its \<open>length\<close> throws), \<open>latency\<close> is the measured \<open>Date.now() - startTime\<close>. The
  first \<open>reduce\<close> reads \<open>s.confidence\<close> of every element and throws at a \<open>null\<close> one.
\<close>

definition analyzeItems ::
  "RawItem option list option \<Rightarrow> ModelMode \<Rightarrow> jsnum \<Rightarrow> js_error + RawAnalysis" where
  "analyzeItems rawItems modelMode latency =
     (case rawItems of
        None \<Rightarrow> Inl TypeError
      | Some entries \<Rightarrow>
          (case those entries of
             None \<Rightarrow> Inl TypeError
           | Some its \<Rightarrow>
              (let total = length its;
                   avgConf = fdiv (foldl (\<lambda>acc s. fadd acc (raw_confidence s)) (Num 0) its)
                                  (Num (real (if total = 0 then 1 else total)));
                   totalArea = foldl (\<lambda>acc s. fadd acc (raw_areaPx s)) (Num 0) its
               in Inr \<lparr>raw_items = its,
                       raw_imageWidth = Num 0,
                       raw_imageHeight = Num 0,
                       raw_performance =
                         \<lparr>latencyMs = latency,
                          modelName = (if modelMode = PRO then ''Standard (FP32)''
                                       else ''Quantized (INT8)''),
                          estimatedModelSizeMb = (if modelMode = PRO then Num 450 else fl 28.4)\<rparr>,
                       raw_summary =
                         \<lparr>totalCount = total, averageConfidence = avgConf,
                          totalAreaPx = totalArea\<rparr>\<rparr>)))"

text \<open>
  An object with its \<open>boundingBox\<close> is an \<open>ItemInstance\<close>, with \<open>widthMm\<close> and
  \<open>heightMm\<close> absent; a reply all of whose items are is an \<open>AnalysisResult\<close>.
\<close>

definition as_ItemInstance :: "RawItem \<Rightarrow> ItemInstance option" where
  "as_ItemInstance r =
     (case raw_boundingBox r of
        None \<Rightarrow> None
      | Some box \<Rightarrow>
          Some \<lparr>id' = raw_id r, boundingBox = box, mask' = raw_mask r,
                confidence = raw_confidence r, areaPx = raw_areaPx r,
                widthMm = None, heightMm = None, label = raw_label r\<rparr>)"

definition as_AnalysisResult :: "RawAnalysis \<Rightarrow> AnalysisResult option" where
  "as_AnalysisResult r =
     (case those (map as_ItemInstance (raw_items r)) of
        None \<Rightarrow> None
      | Some its \<Rightarrow>
          Some \<lparr>items = its, imageWidth = raw_imageWidth r, imageHeight = raw_imageHeight r,
                performance = raw_performance r, summary = raw_summary r\<rparr>)"

text \<open>An entry is well formed when the four coordinates of its box are finite.\<close>

definition finite_box :: "ItemInstance \<Rightarrow> bool" where
  "finite_box s =
     (case boundingBox s of (ymin, xmin, ymax, xmax) \<Rightarrow>
        isFinite ymin \<and> isFinite xmin \<and> isFinite ymax \<and> isFinite xmax)"

section \<open>App.tsx: state and handlers\<close>

record App =
  appState :: AppState
  batchImage :: "string option"
  result :: "AnalysisResult option"
  selectedItemId :: "string option"
  error :: "string option"
  isCalibratingInit :: bool
  editMode :: bool
  calibration :: CalibrationData

text \<open>The initial state of the component.\<close>

definition initial_App :: App where
  "initial_App =
     \<lparr>appState = SETUP, batchImage = None, result = None, selectedItemId = None,
      error = None, isCalibratingInit = False, editMode = False,
      calibration =
        \<lparr>referenceLengthMm = Num 10, pixelsPerMm = None, startPoint = None, endPoint = None\<rparr>\<rparr>"

text \<open>\<open>handleBatchUpload\<close>, once the file reader has delivered the image.\<close>

definition handleBatchUpload :: "string \<Rightarrow> App \<Rightarrow> App" where
  "handleBatchUpload img a =
     a\<lparr>batchImage := Some img, appState := IDLE, result := None, error := None\<rparr>"

text \<open>
  \<open>processBatch\<close> up to the \<open>await\<close>, and its continuation for either outcome of
  \<open>analyzeItems\<close>. The continuation reads the \<open>calibration\<close> of the render in which
  the handler was started, passed here as \<open>cal\<close>.
\<close>

definition processBatch_start :: "App \<Rightarrow> App" where
  "processBatch_start a =
     (if \<not> truthy_str (batchImage a) then a else a\<lparr>appState := PROCESSING, error := None\<rparr>)"

definition processBatch_done :: "CalibrationData \<Rightarrow> js_error + AnalysisResult \<Rightarrow> App \<Rightarrow> App" where
  "processBatch_done cal outcome a =
     (case outcome of
        Inl e \<Rightarrow>
          a\<lparr>error :=
               Some ''Analysis failed. Try a more descriptive item name or clearer batch image.'',
            appState := IDLE\<rparr>
      | Inr analysis \<Rightarrow>
          a\<lparr>result :=
               Some (case pixelsPerMm cal of
                       Some pxMm \<Rightarrow>
                         if truthy_num (Some pxMm)
                         then analysis\<lparr>items := updatePhysicalMetrics (items analysis) pxMm\<rparr>
                         else analysis
                     | None \<Rightarrow> analysis),
            appState := REVIEW\<rparr>)"

text \<open>
  The \<open>try\<close> block of \<open>processBatch\<close> on what \<open>analyzeItems\<close> returned, as the outcome
  handed to the continuation above. With a scale known \<open>updatePhysicalMetrics\<close> runs
  inside the block and destructuring the missing \<open>boundingBox\<close> of an item throws, which
  the \<open>catch\<close> turns into the failure of the batch. Without a scale a reply holding such
  an item is stored as it is; that state holds an item which is no \<open>ItemInstance\<close> and is
  outside the model (\<open>None\<close>).
\<close>

definition processBatch_reply ::
  "CalibrationData \<Rightarrow> js_error + RawAnalysis \<Rightarrow> (js_error + AnalysisResult) option" where
  "processBatch_reply cal outcome =
     (case outcome of
        Inl e \<Rightarrow> Some (Inl e)
      | Inr raw \<Rightarrow>
          (case as_AnalysisResult raw of
             Some analysis \<Rightarrow> Some (Inr analysis)
           | None \<Rightarrow> if truthy_num (pixelsPerMm cal) then Some (Inl TypeError) else None))"

text \<open>\<open>startCalibration\<close> and the callback of its 800 ms timer.\<close>

definition startCalibration :: "App \<Rightarrow> App" where
  "startCalibration a = a\<lparr>isCalibratingInit := True\<rparr>"

definition startCalibration_timeout :: "App \<Rightarrow> App" where
  "startCalibration_timeout a = a\<lparr>isCalibratingInit := False, appState := CALIBRATING\<rparr>"

definition handleCalibrationUpdate :: "Point \<Rightarrow> Point \<Rightarrow> App \<Rightarrow> App" where
  "handleCalibrationUpdate p0 p1 a =
     (let dx = jsub (x p1) (x p0);
          dy = jsub (y p1) (y p0);
          distPx = jsqrt (jadd (jmul dx dx) (jmul dy dy));
          pxPerMm = jdiv distPx (referenceLengthMm (calibration a))
      in a\<lparr>calibration :=
              (calibration a)\<lparr>pixelsPerMm := Some pxPerMm, startPoint := Some p0, endPoint := Some p1\<rparr>,
           result :=
              (case result a of
                 Some r \<Rightarrow> Some (r\<lparr>items := updatePhysicalMetrics (items r) pxPerMm\<rparr>)
               | None \<Rightarrow> None),
           appState := REVIEW\<rparr>)"

definition handleMaskUpdate :: "string \<Rightarrow> Point list \<Rightarrow> App \<Rightarrow> App" where
  "handleMaskUpdate itemId newMask a =
     (case result a of
        None \<Rightarrow> a
      | Some r \<Rightarrow>
          a\<lparr>result :=
               Some (r\<lparr>items := map (\<lambda>i. if id' i = itemId then i\<lparr>mask' := newMask\<rparr> else i) (items r)\<rparr>)\<rparr>)"

definition clearSelectedMask :: "App \<Rightarrow> App" where
  "clearSelectedMask a =
     (case result a of
        None \<Rightarrow> a
      | Some r \<Rightarrow>
          if \<not> truthy_str (selectedItemId a) then a
          else a\<lparr>result :=
                 Some (r\<lparr>items :=
                         map (\<lambda>i. if Some (id' i) = selectedItemId a then i\<lparr>mask' := []\<rparr> else i)
                             (items r)\<rparr>)\<rparr>)"

text \<open>The inline handlers of the markup.\<close>

definition cancelCalibration :: "App \<Rightarrow> App" where
  "cancelCalibration a = a\<lparr>appState := REVIEW\<rparr>"

definition setReferenceLength :: "jsnum \<Rightarrow> App \<Rightarrow> App" where
  "setReferenceLength v a = a\<lparr>calibration := (calibration a)\<lparr>referenceLengthMm := v\<rparr>\<rparr>"

definition onItemClick :: "ItemInstance \<Rightarrow> App \<Rightarrow> App" where
  "onItemClick item a = a\<lparr>selectedItemId := Some (id' item)\<rparr>"

definition toggleEditMode :: "App \<Rightarrow> App" where
  "toggleEditMode a = a\<lparr>editMode := \<not> editMode a\<rparr>"

definition deselect :: "App \<Rightarrow> App" where
  "deselect a = a\<lparr>selectedItemId := None\<rparr>"

definition resetBatch :: "App \<Rightarrow> App" where
  "resetBatch a = a\<lparr>batchImage := None, result := None, selectedItemId := None, editMode := False\<rparr>"

definition goSetup :: "App \<Rightarrow> App" where
  "goSetup a = a\<lparr>appState := SETUP\<rparr>"

definition continueToWorkspace :: "App \<Rightarrow> App" where
  "continueToWorkspace a = a\<lparr>appState := IDLE\<rparr>"

text \<open>The item whose panel the page shows: the first one with the selected id.\<close>

definition selectedItem :: "App \<Rightarrow> ItemInstance option" where
  "selectedItem a =
     (case result a of
        Some r \<Rightarrow>
          if truthy_str (selectedItemId a)
          then find (\<lambda>i. Some (id' i) = selectedItemId a) (items r)
          else None
      | None \<Rightarrow> None)"

text \<open>The props \<open>App\<close> passes to \<open>ItemCanvas\<close>.\<close>

definition props_of :: "App \<Rightarrow> Props" where
  "props_of a =
     \<lparr>result' = result a,
      selectedItemId' = selectedItemId a,
      onCalibrationUpdate = True,
      onMaskUpdate = True,
      isCalibrating = (appState a = CALIBRATING),
      editMode' = editMode a\<rparr>"

section \<open>The two components together\<close>

text \<open>
  The state of the page is the state of \<open>App\<close> and that of the mounted
  \<open>ItemCanvas\<close>. A call made by a canvas handler runs the setter of the canvas or the
  handler \<open>App\<close> passed as the callback.
\<close>

type_synonym UI = "App \<times> CanvasState"

definition initial_CanvasState :: CanvasState where
  "initial_CanvasState = \<lparr>hoveredItemId = None, calPoints = []\<rparr>"

fun dispatch :: "Call \<Rightarrow> UI \<Rightarrow> UI" where
  "dispatch (SetHoveredItemId h) (a, cs) = (a, cs\<lparr>hoveredItemId := h\<rparr>)"
| "dispatch (SetCalPoints ps) (a, cs) = (a, cs\<lparr>calPoints := ps\<rparr>)"
| "dispatch (OnCalibrationUpdate p0 p1) (a, cs) = (handleCalibrationUpdate p0 p1 a, cs)"
| "dispatch (OnMaskUpdate itemId newMask) (a, cs) = (handleMaskUpdate itemId newMask a, cs)"
| "dispatch (OnItemClick item) (a, cs) = (onItemClick item a, cs)"

definition run_calls :: "Call list \<Rightarrow> UI \<Rightarrow> UI" where
  "run_calls calls ui = foldl (\<lambda>u c. dispatch c u) ui calls"

definition canvas_click :: "Canvas option \<Rightarrow> MouseEvent \<Rightarrow> UI \<Rightarrow> UI" where
  "canvas_click canvas e ui = run_calls (handleClick (props_of (fst ui)) canvas (snd ui) e) ui"

definition canvas_move :: "Canvas option \<Rightarrow> MouseEvent \<Rightarrow> UI \<Rightarrow> UI" where
  "canvas_move canvas e ui = run_calls (handleMouseMove (props_of (fst ui)) canvas e) ui"

text \<open>
  The events of the page that the handlers above serve. \<open>AnalysisDone\<close> is the
  continuation of \<open>processBatch\<close>, \<open>CalibrationTimer\<close> the expiry of the timer of
  \<open>startCalibration\<close>, \<open>ReferenceLengthInput\<close> carries the \<open>parseFloat\<close> of the
  field. Leaving the batch unmounts the canvas, whose state starts afresh. Events that
  touch only the item name, the sample image, the model mode, the display toggles or
  the error banner are left out: their handlers change none of the state kept here
  but the banner.
\<close>

datatype Event =
    LogoClick
  | ContinueButton
  | BatchUploaded string
  | AnalyzeButton
  | AnalysisDone CalibrationData "js_error + AnalysisResult"
  | ReferenceLengthInput jsnum
  | ScaleButton
  | CalibrationTimer
  | CancelButton
  | EditButton
  | ClearMaskButton
  | DeselectButton
  | ResetButton
  | CanvasMove "Canvas option" MouseEvent
  | CanvasClick "Canvas option" MouseEvent

fun step :: "Event \<Rightarrow> UI \<Rightarrow> UI" where
  "step LogoClick (a, cs) = (goSetup a, cs)"
| "step ContinueButton (a, cs) = (continueToWorkspace a, cs)"
| "step (BatchUploaded img) (a, cs) = (handleBatchUpload img a, cs)"
| "step AnalyzeButton (a, cs) = (processBatch_start a, cs)"
| "step (AnalysisDone cal outcome) (a, cs) = (processBatch_done cal outcome a, cs)"
| "step (ReferenceLengthInput v) (a, cs) = (setReferenceLength v a, cs)"
| "step ScaleButton (a, cs) = (startCalibration a, cs)"
| "step CalibrationTimer (a, cs) = (startCalibration_timeout a, cs)"
| "step CancelButton (a, cs) = (cancelCalibration a, cs)"
| "step EditButton (a, cs) = (toggleEditMode a, cs)"
| "step ClearMaskButton (a, cs) = (clearSelectedMask a, cs)"
| "step DeselectButton (a, cs) = (deselect a, cs)"
| "step ResetButton (a, cs) = (resetBatch a, initial_CanvasState)"
| "step (CanvasMove canvas e) (a, cs) = canvas_move canvas e (a, cs)"
| "step (CanvasClick canvas e) (a, cs) = canvas_click canvas e (a, cs)"

definition run :: "Event list \<Rightarrow> UI \<Rightarrow> UI" where
  "run evs ui = foldl (\<lambda>u ev. step ev u) ui evs"

text \<open>
  When the page offers an event: the conditions under which the markup shows the
  control and leaves it enabled (for the Continue button, an item name has been typed),
  and for the two continuations the state their handler left behind. The canvas is
  mounted while there is a batch image.
\<close>

fun enabled :: "Event \<Rightarrow> UI \<Rightarrow> bool" where
  "enabled LogoClick (a, cs) = True"
| "enabled ContinueButton (a, cs) = (appState a = SETUP)"
| "enabled (BatchUploaded img) (a, cs) =
     (appState a \<noteq> SETUP \<and> appState a \<noteq> PROCESSING \<and> appState a \<noteq> CALIBRATING \<and>
      \<not> isCalibratingInit a)"
| "enabled AnalyzeButton (a, cs) = (truthy_str (batchImage a) \<and> appState a = IDLE)"
| "enabled (AnalysisDone cal outcome) (a, cs) = (appState a = PROCESSING \<and> cal = calibration a)"
| "enabled (ReferenceLengthInput v) (a, cs) =
     (appState a \<noteq> SETUP \<and> result a \<noteq> None \<and> appState a \<noteq> CALIBRATING)"
| "enabled ScaleButton (a, cs) =
     (appState a \<noteq> SETUP \<and> result a \<noteq> None \<and> appState a \<noteq> CALIBRATING)"
| "enabled CalibrationTimer (a, cs) = isCalibratingInit a"
| "enabled CancelButton (a, cs) = (appState a = CALIBRATING)"
| "enabled EditButton (a, cs) = (truthy_str (batchImage a) \<and> result a \<noteq> None)"
| "enabled ClearMaskButton (a, cs) = (truthy_str (batchImage a) \<and> selectedItem a \<noteq> None \<and> editMode a)"
| "enabled DeselectButton (a, cs) = (truthy_str (batchImage a) \<and> selectedItem a \<noteq> None)"
| "enabled ResetButton (a, cs) = (truthy_str (batchImage a))"
| "enabled (CanvasMove canvas e) (a, cs) = (truthy_str (batchImage a))"
| "enabled (CanvasClick canvas e) (a, cs) = (truthy_str (batchImage a))"

fun feasible :: "Event list \<Rightarrow> UI \<Rightarrow> bool" where
  "feasible [] ui = True"
| "feasible (ev # evs) ui = (enabled ev ui \<and> feasible evs (step ev ui))"

section \<open>A concrete session\<close>

text \<open>
  Two detected items with overlapping boxes, \<open>A = (0, 0, 500, 500)\<close> first and
  \<open>B = (100, 100, 600, 600)\<close> second; \<open>A\<close> has a two-vertex mask, \<open>B\<close> none. The
  canvas is 800 by 600 pixels with its corner at \<open>(8, 100)\<close> of the viewport.
\<close>

definition item_A :: ItemInstance where
  "item_A =
     \<lparr>id' = ''A'', boundingBox = (Num 0, Num 0, Num 500, Num 500),
      mask' = [\<lparr>x = Num 0, y = Num 0\<rparr>, \<lparr>x = Num 10, y = Num 0\<rparr>],
      confidence = Num 0.75, areaPx = Num 2500, widthMm = None, heightMm = None,
      label = ''washer''\<rparr>"

definition item_B :: ItemInstance where
  "item_B =
     \<lparr>id' = ''B'', boundingBox = (Num 100, Num 100, Num 600, Num 600),
      mask' = [],
      confidence = Num 0.5, areaPx = Num 2400, widthMm = None, heightMm = None,
      label = ''washer''\<rparr>"

definition the_canvas :: Canvas where
  "the_canvas = \<lparr>rect_left = Num 8, rect_top = Num 100, width = Num 800, height = Num 600\<rparr>"

text \<open>A canvas for an image of 2048 by 2048 pixels.\<close>

definition wide_canvas :: Canvas where
  "wide_canvas = \<lparr>rect_left = Num 8, rect_top = Num 100, width = Num 2048, height = Num 2048\<rparr>"

text \<open>The pointer event at the point \<open>(px, py)\<close> of the canvas.\<close>

definition at_canvas :: "real \<Rightarrow> real \<Rightarrow> MouseEvent" where
  "at_canvas px py = \<lparr>clientX = Num (8 + px), clientY = Num (100 + py)\<rparr>"

text \<open>
  The object of a reply that reads as a given item, and the arrival of a reply with
  given elements after 1200 ms.
\<close>

definition entry_of :: "ItemInstance \<Rightarrow> RawItem" where
  "entry_of s =
     \<lparr>raw_id = id' s, raw_boundingBox = Some (boundingBox s), raw_mask = mask' s,
      raw_confidence = confidence s, raw_areaPx = areaPx s, raw_label = label s\<rparr>"

definition reply_arrives :: "CalibrationData \<Rightarrow> RawItem option list \<Rightarrow> Event list" where
  "reply_arrives cal entries =
     (case processBatch_reply cal (analyzeItems (Some entries) PRO (Num 1200)) of
        Some outcome \<Rightarrow> [AnalysisDone cal outcome]
      | None \<Rightarrow> [])"

text \<open>
  From the initial page to the review of the two items: continue to the workspace,
  upload a batch, analyse it, receive the reply.
\<close>

definition to_review :: "Event list" where
  "to_review =
     [ContinueButton, BatchUploaded ''data:image/jpeg;base64,AAAA'', AnalyzeButton] @
     reply_arrives (calibration initial_App) [Some (entry_of item_A), Some (entry_of item_B)]"

definition review_UI :: UI where
  "review_UI = run to_review (initial_App, initial_CanvasState)"

text \<open>The review armed for calibration: the Scale button, then its timer.\<close>

definition armed_UI :: UI where
  "armed_UI = run [ScaleButton, CalibrationTimer] review_UI"

text \<open>
  The review with item \<open>A\<close> selected and edit mode on: the pointer moves over \<open>A\<close>,
  a click selects it, the edit button is pressed.
\<close>

definition to_editing :: "Event list" where
  "to_editing =
     [CanvasMove (Some the_canvas) (at_canvas 200 150),
      CanvasClick (Some the_canvas) (at_canvas 200 150), EditButton]"

definition editing_UI :: UI where
  "editing_UI = run to_editing review_UI"

text \<open>The same, then armed for calibration with edit mode still on.\<close>

definition editing_armed_UI :: UI where
  "editing_armed_UI = run [ScaleButton, CalibrationTimer] editing_UI"

text \<open>
  A reply in which a second item carries the id of the first, taken to the same point:
  the pointer over the first item, a click, the edit button.
\<close>

definition item_dup :: ItemInstance where
  "item_dup =
     \<lparr>id' = ''A'', boundingBox = (Num 600, Num 600, Num 900, Num 900),
      mask' = [\<lparr>x = Num 700, y = Num 700\<rparr>],
      confidence = Num 0.5, areaPx = Num 900, widthMm = None, heightMm = None,
      label = ''washer''\<rparr>"

definition to_review_dup :: "Event list" where
  "to_review_dup =
     [ContinueButton, BatchUploaded ''data:image/jpeg;base64,AAAA'', AnalyzeButton] @
     reply_arrives (calibration initial_App) [Some (entry_of item_A), Some (entry_of item_dup)]"

definition editing_dup_UI :: UI where
  "editing_dup_UI = run (to_review_dup @ to_editing) (initial_App, initial_CanvasState)"



text \<open>
  A reply of the service with one entry whose box has an infinite coordinate
  (\<open>JSON.parse\<close> reads \<open>1e999\<close> as \<open>Infinity\<close>), taken through the same steps.
\<close>

definition item_off :: ItemInstance where
  "item_off =
     \<lparr>id' = ''C'', boundingBox = (Num 0, Num 0, PosInf, Num 10),
      mask' = [], confidence = Num 0.5, areaPx = Num 1, widthMm = None, heightMm = None,
      label = ''washer''\<rparr>"

definition to_review_off :: "Event list" where
  "to_review_off =
     [ContinueButton, BatchUploaded ''data:image/jpeg;base64,AAAA'', AnalyzeButton] @
     reply_arrives (calibration initial_App) [Some (entry_of item_off)]"



text \<open>
  A pass abandoned after its first click, at \<open>(30, 40)\<close>, and the next pass with its
  first click at \<open>(60, 80)\<close>.
\<close>

definition abandoned_pass :: "Event list" where
  "abandoned_pass =
     [ScaleButton, CalibrationTimer, CanvasClick (Some the_canvas) (at_canvas 30 40), CancelButton]"

definition next_pass :: "Event list" where
  "next_pass = [ScaleButton, CalibrationTimer, CanvasClick (Some the_canvas) (at_canvas 60 80)]"

section \<open>Verified properties\<close>

lemmas handler_defs = goSetup_def continueToWorkspace_def handleBatchUpload_def
  processBatch_start_def processBatch_done_def setReferenceLength_def startCalibration_def
  startCalibration_timeout_def cancelCalibration_def toggleEditMode_def clearSelectedMask_def
  deselect_def resetBatch_def canvas_move_def canvas_click_def run_calls_def handleClick_def
  handleMouseMove_def props_of_def handleCalibrationUpdate_def handleMaskUpdate_def
  onItemClick_def selectedItem_def hitTest_def bbox_contains_def toNormalized_def
  toRenderSpace_def pointer_def updatePhysicalMetrics_def analyzeItems_def jsub_def jge_def
  signed_inf_def reply_arrives_def entry_of_def processBatch_reply_def
  as_AnalysisResult_def as_ItemInstance_def

lemmas session_defs = review_UI_def to_review_def run_def initial_App_def
  initial_CanvasState_def item_A_def item_B_def the_canvas_def at_canvas_def armed_UI_def
  to_editing_def editing_UI_def

subsection \<open>Rounding\<close>

text \<open>
  Facts about \<open>fl\<close>: its value once the binary exponent is known, the values it leaves
  unchanged, and the bound on its relative error in the normal range.
\<close>

lemma pow2_powr: "pow2 k = 2 powr (of_int k)"
  unfolding pow2_def
  apply (cases "0 \<le> k")
   apply (simp add: powr_realpow[symmetric])
  apply (simp add: powr_realpow[symmetric] powr_minus field_simps)
  done

lemma pow2_nat: "pow2 (numeral k) = 2 ^ numeral k" by (simp add: pow2_def)
lemma pow2_pos: "0 < pow2 k" by (simp add: pow2_powr)
lemma pow2_add: "pow2 (a + b) = pow2 a * pow2 b" by (simp add: pow2_powr powr_add)
lemma pow2_mono: "a \<le> b \<Longrightarrow> pow2 a \<le> pow2 b" by (simp add: pow2_powr)

lemma floor_log2: 
  assumes "pow2 e \<le> r" "r < pow2 (e + 1)"
  shows "\<lfloor>log 2 r\<rfloor> = e"
proof -
  have r: "0 < r" using assms(1) pow2_pos[of e] by linarith
  have "of_int e \<le> log 2 r" using assms(1) r by (simp add: pow2_powr le_log_iff)
  moreover have "log 2 r < of_int e + 1" using assms(2) r by (simp add: pow2_powr log_less_iff)
  ultimately show ?thesis by linarith
qed

lemma round_even_close: "\<bar>of_int (round_even v) - v\<bar> \<le> 1 / 2"
  unfolding round_even_def Let_def by (auto; linarith)

lemma round_even_int: "round_even (of_int n) = n"
  unfolding round_even_def Let_def by simp

lemma expo_normal:
  assumes "pow2 e \<le> \<bar>r\<bar>" "\<bar>r\<bar> < pow2 (e + 1)" "- 1022 \<le> e"
  shows "expo r = e"
  using floor_log2[OF assms(1,2)] assms(3) by (simp add: expo_def)

lemma round_even_mono: "u \<le> w \<Longrightarrow> round_even u \<le> round_even w"
proof -
  assume xy: "u \<le> w"
  have fm: "\<lfloor>u\<rfloor> \<le> \<lfloor>w\<rfloor>" using xy by (rule floor_mono)
  show ?thesis
  proof (cases "\<lfloor>u\<rfloor> = \<lfloor>w\<rfloor>")
    case True
    then show ?thesis using xy unfolding round_even_def Let_def by auto
  next
    case False
    then have "\<lfloor>u\<rfloor> + 1 \<le> \<lfloor>w\<rfloor>" using fm by simp
    moreover have "round_even u \<le> \<lfloor>u\<rfloor> + 1" unfolding round_even_def Let_def by auto
    moreover have "\<lfloor>w\<rfloor> \<le> round_even w" unfolding round_even_def Let_def by auto
    ultimately show ?thesis by linarith
  qed
qed

lemma fl_eval:
  assumes "pow2 e \<le> \<bar>r\<bar>" "\<bar>r\<bar> < pow2 (e + 1)" "- 1022 \<le> e"
  shows "fl r = (let v = of_int (round_even (\<bar>r\<bar> / pow2 (e - 52))) * pow2 (e - 52) in
                 if pow2 1024 \<le> v then signed_inf (0 < r) else Num (sgn r * v))"
proof -
  have e: "expo r = e" using assms by (rule expo_normal)
  have r0: "r \<noteq> 0" using assms(1) pow2_pos[of e] by auto
  have "pow2 52 * pow2 (e - 52) = pow2 e" using pow2_add[of 52 "e - 52"] by simp
  then have "pow2 52 \<le> \<bar>r\<bar> / pow2 (e - 52)"
    using assms(1) pow2_pos[of "e - 52"] by (simp add: field_simps)
  then have "round_even (pow2 52) \<le> round_even (\<bar>r\<bar> / pow2 (e - 52))" by (rule round_even_mono)
  moreover have "round_even (pow2 52) = 2 ^ 52"
    using round_even_int[of "2 ^ 52"] by (simp add: pow2_def)
  ultimately have "0 < round_even (\<bar>r\<bar> / pow2 (e - 52))" by simp
  then have "of_int (round_even (\<bar>r\<bar> / pow2 (e - 52))) * pow2 (e - 52) \<noteq> 0"
    using pow2_pos[of "e - 52"] by simp
  then show ?thesis using r0 e by (simp add: fl_def Let_def)
qed

lemma expo_exists:
  assumes "r \<noteq> 0"
  shows "pow2 \<lfloor>log 2 \<bar>r\<bar>\<rfloor> \<le> \<bar>r\<bar> \<and> \<bar>r\<bar> < pow2 (\<lfloor>log 2 \<bar>r\<bar>\<rfloor> + 1)"
proof -
  have p: "0 < \<bar>r\<bar>" using assms by simp
  have a: "pow2 \<lfloor>log 2 \<bar>r\<bar>\<rfloor> \<le> \<bar>r\<bar>"
    unfolding pow2_powr by (subst le_log_iff[symmetric]) (use p in simp_all)
  have "log 2 \<bar>r\<bar> < of_int (\<lfloor>log 2 \<bar>r\<bar>\<rfloor> + 1)" by linarith
  then have "\<bar>r\<bar> < pow2 (\<lfloor>log 2 \<bar>r\<bar>\<rfloor> + 1)"
    unfolding pow2_powr by (subst (asm) log_less_iff) (use p in simp_all)
  with a show ?thesis by simp
qed

lemma pow2_strict: "pow2 a < pow2 b \<Longrightarrow> a < b"
  by (simp add: pow2_powr)

lemma fl_rel:
  assumes lo: "pow2 (- 1022) \<le> \<bar>r\<bar>" and hi: "\<bar>r\<bar> < pow2 1023"
  shows "\<exists>d. \<bar>d\<bar> \<le> 1 / 2 ^ 53 \<and> fl r = Num (r * (1 + d))"
proof -
  define e where "e = \<lfloor>log 2 \<bar>r\<bar>\<rfloor>"
  have r0: "r \<noteq> 0" using lo pow2_pos[of "- 1022"] by auto
  have b: "pow2 e \<le> \<bar>r\<bar>" "\<bar>r\<bar> < pow2 (e + 1)"
    using expo_exists[OF r0] by (simp_all add: e_def)
  have "pow2 (- 1022) < pow2 (e + 1)" using lo b(2) by linarith
  then have e1: "- 1022 \<le> e" using pow2_strict by fastforce
  have "pow2 e < pow2 1023" using hi b(1) by linarith
  then have e2: "e \<le> 1022" using pow2_strict by fastforce
  define q where "q = pow2 (e - 52)"
  define n where "n = round_even (\<bar>r\<bar> / q)"
  define v where "v = of_int n * q"
  have q: "0 < q" by (simp add: q_def pow2_pos)
  have pe: "pow2 e = 2 ^ 52 * q" using pow2_add[of 52 "e - 52"] by (simp add: q_def pow2_nat)
  have pe1: "pow2 (e + 1) = 2 ^ 53 * q"
    using pow2_add[of 53 "e - 52"] by (simp add: q_def pow2_nat add.commute)
  have close: "\<bar>of_int n - \<bar>r\<bar> / q\<bar> \<le> 1 / 2" unfolding n_def by (rule round_even_close)
  have "v - \<bar>r\<bar> = (of_int n - \<bar>r\<bar> / q) * q"
    using q by (simp add: v_def left_diff_distrib)
  then have "\<bar>v - \<bar>r\<bar>\<bar> = \<bar>of_int n - \<bar>r\<bar> / q\<bar> * q"
    using q by (simp add: abs_mult)
  then have vq: "\<bar>v - \<bar>r\<bar>\<bar> \<le> q / 2" using close q
    by (metis mult_right_mono less_imp_le times_divide_eq_left mult_1)
  have rq: "2 ^ 52 * q \<le> \<bar>r\<bar>" using b(1) pe by simp
  have vhi: "v \<le> \<bar>r\<bar> + q / 2" using vq by linarith
  have "\<bar>r\<bar> + q / 2 < 2 ^ 53 * q + q" using b(2) pe1 q by linarith
  also have "\<dots> \<le> 2 ^ 54 * q" using q by simp
  also have "\<dots> = pow2 (e + 2)"
    using pow2_add[of 54 "e - 52"] by (simp add: q_def pow2_nat add.commute)
  also have "\<dots> \<le> pow2 1024" using e2 by (intro pow2_mono) simp
  finally have nov: "\<not> pow2 1024 \<le> v" using vhi by linarith
  have ev: "fl r = Num (sgn r * v)"
    using fl_eval[OF b e1] nov by (simp add: Let_def v_def n_def q_def)
  define d where "d = (v - \<bar>r\<bar>) / \<bar>r\<bar>"
  have "\<bar>d\<bar> = \<bar>v - \<bar>r\<bar>\<bar> / \<bar>r\<bar>" by (simp add: d_def)
  also have "\<dots> \<le> (q / 2) / \<bar>r\<bar>" using vq by (rule divide_right_mono) simp
  also have "\<dots> \<le> (q / 2) / (2 ^ 52 * q)" using rq q by (intro divide_left_mono) (auto intro!: mult_pos_pos)
  also have "\<dots> = 1 / 2 ^ 53" using q by simp
  finally have d: "\<bar>d\<bar> \<le> 1 / 2 ^ 53" .
  have "sgn r * v = r * (1 + d)"
  proof (cases "0 < r")
    case True then show ?thesis by (simp add: d_def field_simps)
  next
    case False then have "r < 0" using r0 by simp
    then show ?thesis by (simp add: d_def field_simps)
  qed
  with ev d show ?thesis by auto
qed

lemma fl_exact:
  assumes r: "r = of_int m * pow2 k" and m: "\<bar>m\<bar> < 2 ^ 53" and k: "- 1074 \<le> k" "k \<le> 971"
  shows "fl r = Num r"
proof (cases "m = 0")
  case True
  then show ?thesis using r by (simp add: fl_def)
next
  case False
  have r0: "r \<noteq> 0" using False r pow2_pos[of k] by simp
  have ar: "\<bar>r\<bar> = of_int \<bar>m\<bar> * pow2 k" using r pow2_pos[of k] by (simp add: abs_mult)
  have "of_int \<bar>m\<bar> < (2 ^ 53 :: real)" using m by (metis of_int_less_numeral_power_cancel_iff)
  then have lt: "\<bar>r\<bar> < 2 ^ 53 * pow2 k" using ar pow2_pos[of k] by simp
  define e where "e = \<lfloor>log 2 \<bar>r\<bar>\<rfloor>"
  have b: "pow2 e \<le> \<bar>r\<bar>" using expo_exists[OF r0] by (simp add: e_def)
  have "2 ^ 53 * pow2 k = pow2 (k + 53)" using pow2_add[of k 53] by (simp add: pow2_nat)
  then have "pow2 e < pow2 (k + 53)" using b lt by linarith
  then have ek: "e < k + 53" by (rule pow2_strict)
  define j where "j = expo r - 52"
  have jk: "j \<le> k" using ek k(1) by (simp add: j_def expo_def e_def)
  have "pow2 k = pow2 (k - j) * pow2 j" using pow2_add[of "k - j" j] by simp
  moreover have "pow2 (k - j) = of_int (2 ^ nat (k - j))" using jk by (simp add: pow2_def)
  ultimately have "\<bar>r\<bar> / pow2 j = of_int (\<bar>m\<bar> * 2 ^ nat (k - j))"
    using ar pow2_pos[of j] by simp
  then have "round_even (\<bar>r\<bar> / pow2 j) = \<bar>m\<bar> * 2 ^ nat (k - j)"
    by (simp only: round_even_int)
  then have "of_int (round_even (\<bar>r\<bar> / pow2 j)) = \<bar>r\<bar> / pow2 j"
    using \<open>\<bar>r\<bar> / pow2 j = _\<close> by simp
  then have v: "of_int (round_even (\<bar>r\<bar> / pow2 j)) * pow2 j = \<bar>r\<bar>"
    using pow2_pos[of j] by simp
  have "2 ^ 53 * pow2 k \<le> 2 ^ 53 * pow2 971" using k(2) pow2_mono by simp
  also have "\<dots> = pow2 1024" by (simp add: pow2_nat)
  finally have "\<bar>r\<bar> < pow2 1024" using lt by linarith
  then show ?thesis using r0 v by (simp add: fl_def Let_def j_def[symmetric] sgn_real_def)
qed

lemma fl_int: "\<bar>m\<bar> < 2 ^ 53 \<Longrightarrow> fl (of_int m) = Num (of_int m)"
  using fl_exact[of "of_int m" m 0] by (simp add: pow2_def)

lemma fl_numeral [simp]: "numeral n < (2 ^ 53 :: real) \<Longrightarrow> fl (numeral n) = Num (numeral n)"
proof -
  assume "numeral n < (2 ^ 53 :: real)"
  then have "\<bar>numeral n :: int\<bar> < 2 ^ 53"
    by (metis abs_numeral of_int_less_numeral_power_cancel_iff of_int_numeral)
  then show ?thesis using fl_int[of "numeral n"] by simp
qed

lemma fl_one [simp]: "fl 1 = Num 1"
  using fl_int[of 1] by simp

lemma fl_quarter [simp]: "fl (1 / 4) = Num (1 / 4)"
  using fl_exact[of "1 / 4" 1 "- 2"] by (simp add: pow2_def)

lemmas arith_defs = fadd_def fmul_def fdiv_def signed_zero_def

lemma fsub_Num [simp]: "fsub (Num a) (Num b) = (if a = b then Num 0 else fl (a - b))"
  by (auto simp add: fsub_def fadd_def signed_zero_def)

lemma fmul_Num [simp]:
  "fmul (Num a) (Num b) =
     (if a = 0 \<or> b = 0 then signed_zero ((a < 0) \<noteq> (b < 0)) else fl (a * b))"
  by (simp add: fmul_def)

lemma fdiv_Num [simp]:
  "b \<noteq> 0 \<Longrightarrow> fdiv (Num a) (Num b) = (if a = 0 then signed_zero (b < 0) else fl (a / b))"
  by (simp add: fdiv_def)


text \<open>
  The normalized coordinates the handlers compute in the session: the pointer at
  \<open>(200, 150)\<close> of the 800 by 600 canvas is \<open>(250, 250)\<close>, the pointer at \<open>(8, 6)\<close>
  is \<open>(10, 10)\<close>.
\<close>

lemma normalized_session:
  "fmul (fdiv (Num 200) (Num 800)) (Num 1000) = Num 250"
  "fmul (fdiv (Num 150) (Num 600)) (Num 1000) = Num 250"
  "fmul (fdiv (Num 8) (Num 800)) (Num 1000) = Num 10"
  "fmul (fdiv (Num 6) (Num 600)) (Num 1000) = Num 10"
proof -
  have a: "fl (1 / 100) = Num (5764607523034235 / 576460752303423488)"
    by (subst fl_eval[of "- 7"]) (simp_all add: pow2_def round_even_def Let_def signed_inf_def)
  have b: "fl (5764607523034235 / 576460752303423488 * 1000) = Num 10"
    by (subst fl_eval[of 3]) (simp_all add: pow2_def round_even_def Let_def signed_inf_def)
  show "fmul (fdiv (Num 8) (Num 800)) (Num 1000) = Num 10"
    "fmul (fdiv (Num 6) (Num 600)) (Num 1000) = Num 10"
    using a b by simp_all
  show "fmul (fdiv (Num 200) (Num 800)) (Num 1000) = Num 250"
    "fmul (fdiv (Num 150) (Num 600)) (Num 1000) = Num 250"
    by simp_all
qed

text \<open>The same at further points of the canvas.\<close>

lemma normalized_coordinate:
  "fmul (fdiv (Num 240) (Num 800)) (Num 1000) = Num 300"
  "fmul (fdiv (Num 180) (Num 600)) (Num 1000) = Num 300"
  "fmul (fdiv (Num 400) (Num 800)) (Num 1000) = Num 500"
  "fmul (fdiv (Num 300) (Num 600)) (Num 1000) = Num 500"
  "fmul (fdiv (Num 480) (Num 800)) (Num 1000) = Num 600"
  "fmul (fdiv (Num 360) (Num 600)) (Num 1000) = Num 600"
  "fmul (fdiv (Num 560) (Num 800)) (Num 1000) = Num 700"
  "fmul (fdiv (Num 420) (Num 600)) (Num 1000) = Num 700"
  "fmul (fdiv (Num 201) (Num 800)) (Num 1000) = Num (8840073487319039 / 35184372088832)"
proof -
  have a: "fl (3 / 10) = Num (5404319552844595 / 18014398509481984)"
    by (subst fl_eval[of "- 2"]) (simp_all add: pow2_def round_even_def Let_def signed_inf_def)
  have b: "fl (3 / 5) = Num (5404319552844595 / 9007199254740992)"
    by (subst fl_eval[of "- 1"]) (simp_all add: pow2_def round_even_def Let_def signed_inf_def)
  have c: "fl (7 / 10) = Num (3152519739159347 / 4503599627370496)"
    by (subst fl_eval[of "- 1"]) (simp_all add: pow2_def round_even_def Let_def signed_inf_def)
  have d: "fl (201 / 800) = Num (1131529406376837 / 4503599627370496)"
    by (subst fl_eval[of "- 2"]) (simp_all add: pow2_def round_even_def Let_def signed_inf_def)
  have h: "fl (1 / 2) = Num (1 / 2)"
    using fl_exact[of "1 / 2" 1 "- 1"] by (simp add: pow2_def)
  have a': "fl (5404319552844595 / 18014398509481984 * 1000) = Num 300"
    by (subst fl_eval[of 8]) (simp_all add: pow2_def round_even_def Let_def signed_inf_def)
  have b': "fl (5404319552844595 / 9007199254740992 * 1000) = Num 600"
    by (subst fl_eval[of 9]) (simp_all add: pow2_def round_even_def Let_def signed_inf_def)
  have c': "fl (3152519739159347 / 4503599627370496 * 1000) = Num 700"
    by (subst fl_eval[of 9]) (simp_all add: pow2_def round_even_def Let_def signed_inf_def)
  have d': "fl (1131529406376837 / 4503599627370496 * 1000) =
      Num (8840073487319039 / 35184372088832)"
    by (subst fl_eval[of 7]) (simp_all add: pow2_def round_even_def Let_def signed_inf_def)
  show "fmul (fdiv (Num 240) (Num 800)) (Num 1000) = Num 300"
    "fmul (fdiv (Num 180) (Num 600)) (Num 1000) = Num 300"
    using a a' by simp_all
  show "fmul (fdiv (Num 400) (Num 800)) (Num 1000) = Num 500"
    "fmul (fdiv (Num 300) (Num 600)) (Num 1000) = Num 500"
    using h by simp_all
  show "fmul (fdiv (Num 480) (Num 800)) (Num 1000) = Num 600"
    "fmul (fdiv (Num 360) (Num 600)) (Num 1000) = Num 600"
    using b b' by simp_all
  show "fmul (fdiv (Num 560) (Num 800)) (Num 1000) = Num 700"
    "fmul (fdiv (Num 420) (Num 600)) (Num 1000) = Num 700"
    using c c' by simp_all
  show "fmul (fdiv (Num 201) (Num 800)) (Num 1000) = Num (8840073487319039 / 35184372088832)"
    using d d' by simp
qed

subsection \<open>Frame of the measurement update\<close>

text \<open>
  Claim C10. For every item list and every \<open>pixelsPerMm\<close>, \<open>updatePhysicalMetrics\<close>
  returns a list of the same length in the same order; at each position \<open>id\<close>,
  \<open>boundingBox\<close>, \<open>mask\<close>, \<open>confidence\<close>, \<open>areaPx\<close> and \<open>label\<close> are those of the
  input item, the output item is the input item with only \<open>widthMm\<close> and \<open>heightMm\<close>
  replaced, and both are assigned for every item, whatever its mask.
\<close>

theorem updatePhysicalMetrics_frame:
  "length (updatePhysicalMetrics its pxMm) = length its \<and>
   (\<forall>i<length its.
      id' (updatePhysicalMetrics its pxMm ! i) = id' (its ! i) \<and>
      boundingBox (updatePhysicalMetrics its pxMm ! i) = boundingBox (its ! i) \<and>
      mask' (updatePhysicalMetrics its pxMm ! i) = mask' (its ! i) \<and>
      confidence (updatePhysicalMetrics its pxMm ! i) = confidence (its ! i) \<and>
      areaPx (updatePhysicalMetrics its pxMm ! i) = areaPx (its ! i) \<and>
      label (updatePhysicalMetrics its pxMm ! i) = label (its ! i) \<and>
      updatePhysicalMetrics its pxMm ! i =
        (its ! i)\<lparr>widthMm := widthMm (updatePhysicalMetrics its pxMm ! i),
                  heightMm := heightMm (updatePhysicalMetrics its pxMm ! i)\<rparr> \<and>
      widthMm (updatePhysicalMetrics its pxMm ! i) \<noteq> None \<and>
      heightMm (updatePhysicalMetrics its pxMm ! i) \<noteq> None)"
  by (simp add: updatePhysicalMetrics_def split: prod.split)

text \<open>The second item of the session has an empty mask and is measured all the same.\<close>

theorem updatePhysicalMetrics_frame_witness:
  "mask' ([item_A, item_B] ! 1) = [] \<and>
   length (updatePhysicalMetrics [item_A, item_B] (Num 5)) = 2 \<and>
   id' (updatePhysicalMetrics [item_A, item_B] (Num 5) ! 1) = ''B'' \<and>
   boundingBox (updatePhysicalMetrics [item_A, item_B] (Num 5) ! 1) =
     (Num 100, Num 100, Num 600, Num 600) \<and>
   mask' (updatePhysicalMetrics [item_A, item_B] (Num 5) ! 1) = [] \<and>
   widthMm (updatePhysicalMetrics [item_A, item_B] (Num 5) ! 1) \<noteq> None \<and>
   heightMm (updatePhysicalMetrics [item_A, item_B] (Num 5) ! 1) \<noteq> None"
  using updatePhysicalMetrics_frame [of "[item_A, item_B]" "Num 5"]
  by (simp add: item_B_def)

subsection \<open>Coordinate transforms\<close>

text \<open>
  One coordinate through both transforms: four roundings, each within \<open>2\<^sup>-\<^sup>5\<^sup>3\<close> of
  its argument as long as no intermediate result leaves the normal range.
\<close>

lemma in_normal_range:
  assumes "pow2 (- 1000) \<le> \<bar>t\<bar>" and "\<bar>t\<bar> \<le> pow2 1000" and "1 / 8 \<le> k" and "k \<le> 8"
  shows "pow2 (- 1022) \<le> \<bar>t * k / 1000\<bar>" and "\<bar>t * k / 1000\<bar> < pow2 1023"
    and "pow2 (- 1022) \<le> \<bar>t * k\<bar>" and "\<bar>t * k\<bar> < pow2 1023"
proof -
  have k: "0 < k" using assms(3) by linarith
  have lo: "pow2 (- 1022) * 8000 \<le> pow2 (- 1000)" by (simp add: pow2_def)
  have hi: "pow2 1000 * 8 < pow2 1023" by (simp add: pow2_def)
  have p: "0 < pow2 (- 1000)" by (rule pow2_pos)
  have a: "\<bar>t * k\<bar> = \<bar>t\<bar> * k" using k by (simp add: abs_mult)
  have l1: "pow2 (- 1000) * (1 / 8) \<le> \<bar>t\<bar> * k"
    using assms(1,3) p by (intro mult_mono) simp_all
  have h1: "\<bar>t\<bar> * k \<le> pow2 1000 * 8"
    using assms(2,4) k by (intro mult_mono) simp_all
  show "pow2 (- 1022) \<le> \<bar>t * k\<bar>" using a l1 lo pow2_pos[of "- 1022"] by simp
  show "\<bar>t * k\<bar> < pow2 1023" using a h1 hi by simp
  have b: "\<bar>t * k / 1000\<bar> = \<bar>t\<bar> * k / 1000" using k by (simp add: abs_mult)
  show "pow2 (- 1022) \<le> \<bar>t * k / 1000\<bar>" using b l1 lo by simp
  show "\<bar>t * k / 1000\<bar> < pow2 1023" using b h1 hi a by simp
qed

lemma factor_product:
  fixes l p h d :: real
  assumes "0 < l" "l \<le> p" "p \<le> h" "\<bar>d\<bar> \<le> 1 / 2 ^ 53"
  shows "l * (1 - 1 / 2 ^ 53) \<le> p * (1 + d)" and "p * (1 + d) \<le> h * (1 + 1 / 2 ^ 53)"
    and "l / 2 \<le> p * (1 + d)" and "p * (1 + d) \<le> h * 2"
proof -
  have d: "1 - 1 / 2 ^ 53 \<le> 1 + d" "1 + d \<le> 1 + 1 / 2 ^ 53" "1 / 2 \<le> 1 + d" "1 + d \<le> 2"
    using assms(4) by (simp_all add: abs_le_iff)
  have p: "0 < p" "0 < h" using assms(1-3) by linarith+
  show "l * (1 - 1 / 2 ^ 53) \<le> p * (1 + d)"
    using assms(1,2) d(1) by (intro mult_mono) simp_all
  show "p * (1 + d) \<le> h * (1 + 1 / 2 ^ 53)"
    using assms(3) d(2,3) p by (intro mult_mono) simp_all
  have "l * (1 / 2) \<le> p * (1 + d)"
    using assms(1,2) d(3) by (intro mult_mono) simp_all
  then show "l / 2 \<le> p * (1 + d)" by simp
  show "p * (1 + d) \<le> h * 2"
    using assms(3) d(3,4) p by (intro mult_mono) simp_all
qed

lemma round_trip_coord:
  assumes w: "0 < w"
    and a: "pow2 (- 1000) \<le> \<bar>a\<bar>" "\<bar>a\<bar> \<le> pow2 1000"
    and aw: "pow2 (- 1000) \<le> \<bar>a * w\<bar>" "\<bar>a * w\<bar> \<le> pow2 1000"
  shows "\<exists>r. fmul (fdiv (fmul (fdiv (Num a) (Num 1000)) (Num w)) (Num w)) (Num 1000) = Num r \<and>
             \<bar>r - a\<bar> \<le> \<bar>a\<bar> / 2 ^ 50"
proof -
  have a0: "a \<noteq> 0" using a(1) pow2_pos[of "- 1000"] by auto
  have r1: "pow2 (- 1022) \<le> \<bar>a / 1000\<bar>" "\<bar>a / 1000\<bar> < pow2 1023"
    using in_normal_range(1,2)[OF a, of 1] by simp_all
  obtain d1 where d1: "\<bar>d1\<bar> \<le> 1 / 2 ^ 53" "fl (a / 1000) = Num (a / 1000 * (1 + d1))"
    using fl_rel[OF r1] by blast
  define c1 where "c1 = 1 + d1"
  have c1: "1 - 1 / 2 ^ 53 \<le> c1" "c1 \<le> 1 + 1 / 2 ^ 53" "1 / 2 \<le> c1" "c1 \<le> 2"
    using factor_product[of 1 1 1 d1] d1(1) by (simp_all add: c1_def)
  have s1: "fdiv (Num a) (Num 1000) = Num (a * c1 / 1000)"
    using a0 d1(2) by (simp add: c1_def)
  have r2: "pow2 (- 1022) \<le> \<bar>a * w * c1 / 1000\<bar>" "\<bar>a * w * c1 / 1000\<bar> < pow2 1023"
    using in_normal_range(1,2)[OF aw, of c1] c1 by simp_all
  obtain d2 where d2: "\<bar>d2\<bar> \<le> 1 / 2 ^ 53"
      "fl (a * w * c1 / 1000) = Num (a * w * c1 / 1000 * (1 + d2))"
    using fl_rel[OF r2] by blast
  define c2 where "c2 = c1 * (1 + d2)"
  have c2: "(1 - 1 / 2 ^ 53) * (1 - 1 / 2 ^ 53) \<le> c2" "c2 \<le> (1 + 1 / 2 ^ 53) * (1 + 1 / 2 ^ 53)"
      "1 / 4 \<le> c2" "c2 \<le> 4"
    using factor_product[of "1 - 1 / 2 ^ 53" c1 "1 + 1 / 2 ^ 53" d2]
      factor_product[of "1 / 2" c1 2 d2] c1 d2(1) by (simp_all add: c2_def)
  have c1pos: "c1 \<noteq> 0" using c1(3) by auto
  have s2: "fmul (Num (a * c1 / 1000)) (Num w) = Num (a * w * c2 / 1000)"
    using a0 w c1pos d2(2) by (simp add: c2_def mult.commute mult.left_commute)
  have r3: "pow2 (- 1022) \<le> \<bar>a * c2 / 1000\<bar>" "\<bar>a * c2 / 1000\<bar> < pow2 1023"
    using in_normal_range(1,2)[OF a, of c2] c2 by simp_all
  obtain d3 where d3: "\<bar>d3\<bar> \<le> 1 / 2 ^ 53"
      "fl (a * c2 / 1000) = Num (a * c2 / 1000 * (1 + d3))"
    using fl_rel[OF r3] by blast
  define c3 where "c3 = c2 * (1 + d3)"
  have c3: "(1 - 1 / 2 ^ 53) * (1 - 1 / 2 ^ 53) * (1 - 1 / 2 ^ 53) \<le> c3"
      "c3 \<le> (1 + 1 / 2 ^ 53) * (1 + 1 / 2 ^ 53) * (1 + 1 / 2 ^ 53)" "1 / 8 \<le> c3" "c3 \<le> 8"
    using factor_product[of "(1 - 1 / 2 ^ 53) * (1 - 1 / 2 ^ 53)" c2
            "(1 + 1 / 2 ^ 53) * (1 + 1 / 2 ^ 53)" d3]
      factor_product[of "1 / 4" c2 4 d3] c2 d3(1) by (simp_all add: c3_def)
  have c2pos: "c2 \<noteq> 0" using c2(3) by auto
  have "a * w * c2 / 1000 / w = a * c2 / 1000" using w by simp
  then have s3: "fdiv (Num (a * w * c2 / 1000)) (Num w) = Num (a * c3 / 1000)"
    using a0 w c2pos d3(2) by (simp add: c3_def)
  have r4: "pow2 (- 1022) \<le> \<bar>a * c3\<bar>" "\<bar>a * c3\<bar> < pow2 1023"
    using in_normal_range(3,4)[OF a, of c3] c3 by simp_all
  obtain d4 where d4: "\<bar>d4\<bar> \<le> 1 / 2 ^ 53" "fl (a * c3) = Num (a * c3 * (1 + d4))"
    using fl_rel[OF r4] by blast
  define c4 where "c4 = c3 * (1 + d4)"
  have c4: "(1 - 1 / 2 ^ 53) * (1 - 1 / 2 ^ 53) * (1 - 1 / 2 ^ 53) * (1 - 1 / 2 ^ 53) \<le> c4"
      "c4 \<le> (1 + 1 / 2 ^ 53) * (1 + 1 / 2 ^ 53) * (1 + 1 / 2 ^ 53) * (1 + 1 / 2 ^ 53)"
    using factor_product(1,2)[of "(1 - 1 / 2 ^ 53) * (1 - 1 / 2 ^ 53) * (1 - 1 / 2 ^ 53)" c3
            "(1 + 1 / 2 ^ 53) * (1 + 1 / 2 ^ 53) * (1 + 1 / 2 ^ 53)" d4] c3 d4(1)
    by (simp_all add: c4_def)
  have c3pos: "c3 \<noteq> 0" using c3(3) by auto
  have s4: "fmul (Num (a * c3 / 1000)) (Num 1000) = Num (a * c4)"
    using a0 c3pos d4(2) by (simp add: c4_def)
  have "1 - 1 / 2 ^ 50 \<le> c4" "c4 \<le> 1 + 1 / 2 ^ 50"
    using c4 by simp_all
  then have "\<bar>c4 - 1\<bar> \<le> 1 / 2 ^ 50" by linarith
  then have "\<bar>a\<bar> * \<bar>c4 - 1\<bar> \<le> \<bar>a\<bar> * (1 / 2 ^ 50)" by (intro mult_left_mono) simp_all
  moreover have "a * c4 - a = a * (c4 - 1)" by (simp add: right_diff_distrib)
  ultimately have "\<bar>a * c4 - a\<bar> \<le> \<bar>a\<bar> / 2 ^ 50" by (simp add: abs_mult)
  then show ?thesis using s1 s2 s3 s4 by simp
qed

lemma round_trip_special:
  assumes "0 < w" and "v = Num 0 \<or> v = NegZero \<or> v = PosInf \<or> v = NegInf \<or> v = NaN"
  shows "fmul (fdiv (fmul (fdiv v (Num 1000)) (Num w)) (Num w)) (Num 1000) = v"
  using assms by (elim disjE) (simp_all add: fdiv_def fmul_def signed_zero_def signed_inf_def)

text \<open>
  Claim C4. On a surface of positive width and height, mapping a normalized point to
  render space and back computes \<open>(((x / 1000) * width) / width) * 1000\<close> on each
  coordinate. For a finite non-zero coordinate \<open>a\<close>, as long as neither \<open>a\<close> nor its
  product with the dimension leaves \<open>[2\<^sup>-\<^sup>1\<^sup>0\<^sup>0\<^sup>0, 2\<^sup>1\<^sup>0\<^sup>0\<^sup>0]\<close> in magnitude, the result is
  finite and within \<open>\<bar>a\<bar> / 2\<^sup>5\<^sup>0\<close> of \<open>a\<close>; the zeros, the infinities and \<open>NaN\<close> come back
  as they went. Nothing is clamped: the bound does not depend on \<open>a\<close> lying in
  \<open>[0, 1000]\<close>.
\<close>

theorem transform_round_trip:
  assumes "width cv = Num w" and "0 < w" and "height cv = Num h" and "0 < h"
  shows
    "(\<forall>a. x pt = Num a \<and> pow2 (- 1000) \<le> \<bar>a\<bar> \<and> \<bar>a\<bar> \<le> pow2 1000 \<and>
          pow2 (- 1000) \<le> \<bar>a * w\<bar> \<and> \<bar>a * w\<bar> \<le> pow2 1000 \<longrightarrow>
          (\<exists>r. x (toNormalized (toRenderSpace pt cv) cv) = Num r \<and> \<bar>r - a\<bar> \<le> \<bar>a\<bar> / 2 ^ 50)) \<and>
     (\<forall>b. y pt = Num b \<and> pow2 (- 1000) \<le> \<bar>b\<bar> \<and> \<bar>b\<bar> \<le> pow2 1000 \<and>
          pow2 (- 1000) \<le> \<bar>b * h\<bar> \<and> \<bar>b * h\<bar> \<le> pow2 1000 \<longrightarrow>
          (\<exists>r. y (toNormalized (toRenderSpace pt cv) cv) = Num r \<and> \<bar>r - b\<bar> \<le> \<bar>b\<bar> / 2 ^ 50)) \<and>
     (x pt = Num 0 \<or> x pt = NegZero \<or> x pt = PosInf \<or> x pt = NegInf \<or> x pt = NaN \<longrightarrow>
        x (toNormalized (toRenderSpace pt cv) cv) = x pt) \<and>
     (y pt = Num 0 \<or> y pt = NegZero \<or> y pt = PosInf \<or> y pt = NegInf \<or> y pt = NaN \<longrightarrow>
        y (toNormalized (toRenderSpace pt cv) cv) = y pt)"
proof -
  have xs: "x (toNormalized (toRenderSpace pt cv) cv) =
      fmul (fdiv (fmul (fdiv (x pt) (Num 1000)) (Num w)) (Num w)) (Num 1000)"
    and ys: "y (toNormalized (toRenderSpace pt cv) cv) =
      fmul (fdiv (fmul (fdiv (y pt) (Num 1000)) (Num h)) (Num h)) (Num 1000)"
    using assms(1,3) by (simp_all add: toNormalized_def toRenderSpace_def)
  have 1: "\<exists>r. x (toNormalized (toRenderSpace pt cv) cv) = Num r \<and> \<bar>r - a\<bar> \<le> \<bar>a\<bar> / 2 ^ 50"
    if "x pt = Num a \<and> pow2 (- 1000) \<le> \<bar>a\<bar> \<and> \<bar>a\<bar> \<le> pow2 1000 \<and>
        pow2 (- 1000) \<le> \<bar>a * w\<bar> \<and> \<bar>a * w\<bar> \<le> pow2 1000" for a
    using that round_trip_coord[OF assms(2), of a] unfolding xs by auto
  have 2: "\<exists>r. y (toNormalized (toRenderSpace pt cv) cv) = Num r \<and> \<bar>r - b\<bar> \<le> \<bar>b\<bar> / 2 ^ 50"
    if "y pt = Num b \<and> pow2 (- 1000) \<le> \<bar>b\<bar> \<and> \<bar>b\<bar> \<le> pow2 1000 \<and>
        pow2 (- 1000) \<le> \<bar>b * h\<bar> \<and> \<bar>b * h\<bar> \<le> pow2 1000" for b
    using that round_trip_coord[OF assms(4), of b] unfolding ys by auto
  have 3: "x (toNormalized (toRenderSpace pt cv) cv) = x pt"
    if "x pt = Num 0 \<or> x pt = NegZero \<or> x pt = PosInf \<or> x pt = NegInf \<or> x pt = NaN"
    unfolding xs using round_trip_special[OF assms(2) that] .
  have 4: "y (toNormalized (toRenderSpace pt cv) cv) = y pt"
    if "y pt = Num 0 \<or> y pt = NegZero \<or> y pt = PosInf \<or> y pt = NegInf \<or> y pt = NaN"
    unfolding ys using round_trip_special[OF assms(4) that] .
  show ?thesis
    by (intro conjI allI impI) (erule 1 2 3 4)+
qed

text \<open>
  The point \<open>(1500, -20)\<close>, outside the image on both axes, on the 800 by 600 canvas,
  and a point with an infinite and a negative-zero coordinate.
\<close>

theorem transform_round_trip_witness:
  "width the_canvas = Num 800 \<and> (0::real) < 800 \<and>
   height the_canvas = Num 600 \<and> (0::real) < 600 \<and>
   (\<exists>r. x (toNormalized (toRenderSpace \<lparr>x = Num 1500, y = Num (- 20)\<rparr> the_canvas) the_canvas) =
          Num r \<and> \<bar>r - 1500\<bar> \<le> 1500 / 2 ^ 50) \<and>
   (\<exists>r. y (toNormalized (toRenderSpace \<lparr>x = Num 1500, y = Num (- 20)\<rparr> the_canvas) the_canvas) =
          Num r \<and> \<bar>r - (- 20)\<bar> \<le> 20 / 2 ^ 50) \<and>
   x (toNormalized (toRenderSpace \<lparr>x = PosInf, y = NegZero\<rparr> the_canvas) the_canvas) = PosInf \<and>
   y (toNormalized (toRenderSpace \<lparr>x = PosInf, y = NegZero\<rparr> the_canvas) the_canvas) = NegZero"
proof -
  have w: "width the_canvas = Num 800" and h: "height the_canvas = Num 600"
    by (simp_all add: the_canvas_def)
  have pw: "(0::real) < 800" and ph: "(0::real) < 600" by simp_all
  note finite = transform_round_trip [OF w pw h ph, of "\<lparr>x = Num 1500, y = Num (- 20)\<rparr>"]
  note special = transform_round_trip [OF w pw h ph, of "\<lparr>x = PosInf, y = NegZero\<rparr>"]
  have "\<exists>r. x (toNormalized (toRenderSpace \<lparr>x = Num 1500, y = Num (- 20)\<rparr> the_canvas) the_canvas) =
          Num r \<and> \<bar>r - 1500\<bar> \<le> \<bar>1500\<bar> / 2 ^ 50"
    by (rule finite [THEN conjunct1, rule_format]) (simp add: pow2_def)
  moreover have "\<exists>r. y (toNormalized (toRenderSpace \<lparr>x = Num 1500, y = Num (- 20)\<rparr> the_canvas) the_canvas) =
          Num r \<and> \<bar>r - (- 20)\<bar> \<le> \<bar>- 20\<bar> / 2 ^ 50"
    by (rule finite [THEN conjunct2, THEN conjunct1, rule_format]) (simp add: pow2_def)
  moreover have "x (toNormalized (toRenderSpace \<lparr>x = PosInf, y = NegZero\<rparr> the_canvas) the_canvas) =
      x \<lparr>x = PosInf, y = NegZero\<rparr>"
    by (rule special [THEN conjunct2, THEN conjunct2, THEN conjunct1, rule_format]) simp
  moreover have "y (toNormalized (toRenderSpace \<lparr>x = PosInf, y = NegZero\<rparr> the_canvas) the_canvas) =
      y \<lparr>x = PosInf, y = NegZero\<rparr>"
    by (rule special [THEN conjunct2, THEN conjunct2, THEN conjunct2, rule_format]) simp
  ultimately show ?thesis using w h by simp
qed

text \<open>
  Without a bound on the magnitude the claim fails: on a surface 2048 pixels wide the
  finite coordinate \<open>2\<^sup>1\<^sup>0\<^sup>2\<^sup>3\<close> overflows on the way to render space and comes back
  as \<open>Infinity\<close>.
\<close>

theorem large_coordinate_overflows:
  "width wide_canvas = Num 2048 \<and> height wide_canvas = Num 2048 \<and>
   x (toRenderSpace \<lparr>x = Num (2 ^ 1023), y = Num 0\<rparr> wide_canvas) = PosInf \<and>
   x (toNormalized (toRenderSpace \<lparr>x = Num (2 ^ 1023), y = Num 0\<rparr> wide_canvas) wide_canvas) =
     PosInf"
proof -
  have a: "fl (2 ^ 1023 / 1000) = Num (4611686018427388 * 2 ^ 961)"
    by (subst fl_eval[of 1013]) (simp_all add: pow2_def round_even_def Let_def signed_inf_def)
  have b: "fl (4611686018427388 * 2 ^ 961 * 2048) = PosInf"
    by (subst fl_eval[of 1024]) (simp_all add: pow2_def round_even_def Let_def signed_inf_def)
  have "fmul (fdiv (Num (2 ^ 1023)) (Num 1000)) (Num 2048) = PosInf"
    using a b by (simp add: fmul_def fdiv_def)
  then show ?thesis
    by (simp add: toNormalized_def toRenderSpace_def wide_canvas_def fdiv_def fmul_def
          signed_inf_def del: fdiv_Num fmul_Num)
qed

text \<open>
  The tolerance is needed: the coordinate 7 on the 800 pixel canvas comes back as
  \<open>7.000000000000001\<close>.
\<close>

lemma round_trip_not_exact:
  "x (toNormalized (toRenderSpace \<lparr>x = Num 7, y = Num 0\<rparr> the_canvas) the_canvas) =
     Num (7881299347898369 / 1125899906842624) \<and>
   (7881299347898369 / 1125899906842624 :: real) \<noteq> 7"
proof -
  have a: "fl (7 / 1000) = Num (8070450532247929 / 1152921504606846976)"
    by (subst fl_eval[of "- 8"]) (simp_all add: pow2_def round_even_def Let_def signed_inf_def)
  have b: "fl (8070450532247929 / 1152921504606846976 * 800) =
      Num (6305039478318695 / 1125899906842624)"
    by (subst fl_eval[of 2]) (simp_all add: pow2_def round_even_def Let_def signed_inf_def)
  have c: "fl (6305039478318695 / 1125899906842624 / 800) =
      Num (4035225266123965 / 576460752303423488)"
    by (subst fl_eval[of "- 8"]) (simp_all add: pow2_def round_even_def Let_def signed_inf_def)
  have d: "fl (4035225266123965 / 576460752303423488 * 1000) =
      Num (7881299347898369 / 1125899906842624)"
    by (subst fl_eval[of 2]) (simp_all add: pow2_def round_even_def Let_def signed_inf_def)
  have "fmul (fdiv (fmul (fdiv (Num 7) (Num 1000)) (Num 800)) (Num 800)) (Num 1000) =
      Num (7881299347898369 / 1125899906842624)"
    using a b c d by (simp add: fmul_def fdiv_def)
  then show ?thesis
    by (simp add: toNormalized_def toRenderSpace_def the_canvas_def del: fdiv_Num fmul_Num)
qed

subsection \<open>Hit test\<close>

text \<open>
  Claim C5. The hit test of a pointer event takes the pointer position to normalized
  space and returns the first item, in list order, whose box contains that point, and
  nothing exactly when no box contains it. Containment is inclusive on all four sides:
  \<open>xmin \<le> x \<le> xmax\<close> and \<open>ymin \<le> y \<le> ymax\<close>.
\<close>

theorem hitTest_first_match:
  "(hitTest cv e its = None \<longleftrightarrow>
      (\<forall>s\<in>set its. \<not> bbox_contains (toNormalized (pointer cv e) cv) s)) \<and>
   (\<forall>s. hitTest cv e its = Some s \<longleftrightarrow>
      (\<exists>i<length its. its ! i = s \<and> bbox_contains (toNormalized (pointer cv e) cv) s \<and>
         (\<forall>j<i. \<not> bbox_contains (toNormalized (pointer cv e) cv) (its ! j)))) \<and>
   (\<forall>a b ymin xmin ymax xmax s.
      boundingBox s = (Num ymin, Num xmin, Num ymax, Num xmax) \<longrightarrow>
      (bbox_contains \<lparr>x = Num a, y = Num b\<rparr> s \<longleftrightarrow>
         xmin \<le> a \<and> a \<le> xmax \<and> ymin \<le> b \<and> b \<le> ymax))"
proof -
  let ?pt = "toNormalized (pointer cv e) cv"
  have none: "hitTest cv e its = None \<longleftrightarrow> (\<forall>s\<in>set its. \<not> bbox_contains ?pt s)"
    by (auto simp: hitTest_def find_None_iff)
  have some: "hitTest cv e its = Some s \<longleftrightarrow>
      (\<exists>i<length its. its ! i = s \<and> bbox_contains ?pt s \<and>
         (\<forall>j<i. \<not> bbox_contains ?pt (its ! j)))" for s
    unfolding hitTest_def find_Some_iff by blast
  have incl: "bbox_contains \<lparr>x = Num a, y = Num b\<rparr> s \<longleftrightarrow>
      xmin \<le> a \<and> a \<le> xmax \<and> ymin \<le> b \<and> b \<le> ymax"
    if "boundingBox s = (Num ymin, Num xmin, Num ymax, Num xmax)"
    for a b ymin xmin ymax xmax s
    using that by (simp add: bbox_contains_def jge_def)
  from none some incl show ?thesis by blast
qed

text \<open>
  The tie-break of the claim: the pointer at \<open>(240, 180)\<close> of the canvas is the
  normalized point \<open>(300, 300)\<close>, inside both boxes, and resolves to \<open>A\<close>. The corner
  \<open>(500, 500)\<close> of \<open>A\<close> still hits \<open>A\<close>, \<open>(600, 600)\<close> hits \<open>B\<close>, \<open>(700, 700)\<close>
  nothing.
\<close>

theorem hitTest_first_match_witness:
  "toNormalized (pointer the_canvas (at_canvas 240 180)) the_canvas = \<lparr>x = Num 300, y = Num 300\<rparr> \<and>
   bbox_contains \<lparr>x = Num 300, y = Num 300\<rparr> item_A \<and>
   bbox_contains \<lparr>x = Num 300, y = Num 300\<rparr> item_B \<and>
   hitTest the_canvas (at_canvas 240 180) [item_A, item_B] = Some item_A \<and>
   hitTest the_canvas (at_canvas 400 300) [item_A, item_B] = Some item_A \<and>
   hitTest the_canvas (at_canvas 480 360) [item_A, item_B] = Some item_B \<and>
   hitTest the_canvas (at_canvas 560 420) [item_A, item_B] = None"
proof -
  have pt: "toNormalized (pointer the_canvas (at_canvas 240 180)) the_canvas =
      \<lparr>x = Num 300, y = Num 300\<rparr>"
    by (simp add: toNormalized_def pointer_def the_canvas_def at_canvas_def
          normalized_coordinate del: fdiv_Num fmul_Num)
  have A: "bbox_contains \<lparr>x = Num 300, y = Num 300\<rparr> item_A"
    and B: "bbox_contains \<lparr>x = Num 300, y = Num 300\<rparr> item_B"
    by (simp_all add: bbox_contains_def jge_def item_A_def item_B_def)
  have "\<exists>i<length [item_A, item_B]. [item_A, item_B] ! i = item_A \<and>
          bbox_contains (toNormalized (pointer the_canvas (at_canvas 240 180)) the_canvas) item_A \<and>
          (\<forall>j<i. \<not> bbox_contains (toNormalized (pointer the_canvas (at_canvas 240 180)) the_canvas)
                      ([item_A, item_B] ! j))"
    using A pt by (intro exI [of _ 0]) simp
  with hitTest_first_match [of the_canvas "at_canvas 240 180" "[item_A, item_B]"]
  have first: "hitTest the_canvas (at_canvas 240 180) [item_A, item_B] = Some item_A"
    by blast
  have rest: "hitTest the_canvas (at_canvas 400 300) [item_A, item_B] = Some item_A"
    "hitTest the_canvas (at_canvas 480 360) [item_A, item_B] = Some item_B"
    "hitTest the_canvas (at_canvas 560 420) [item_A, item_B] = None"
    by (simp_all add: hitTest_def toNormalized_def pointer_def the_canvas_def at_canvas_def
          normalized_coordinate bbox_contains_def jge_def item_A_def item_B_def
          del: fdiv_Num fmul_Num)
  from pt A B first rest show ?thesis by simp
qed

text \<open>
  The point compared is the computed one. The pointer at \<open>x = 201\<close> of the canvas is
  \<open>251.25\<close> in exact arithmetic, the left edge of the box below; the handler computes
  \<open>251.24999999999997\<close>, left of the edge, and the item is not hit.
\<close>

lemma hitTest_compares_computed_point:
  "x (toNormalized (pointer the_canvas (at_canvas 201 300)) the_canvas) =
     Num (8840073487319039 / 35184372088832) \<and>
   8840073487319039 / 35184372088832 < (251.25 :: real) \<and>
   hitTest the_canvas (at_canvas 201 300)
     [item_B\<lparr>boundingBox := (Num 0, Num 251.25, Num 1000, Num 503.75)\<rparr>] = None"
  by (simp add: hitTest_def toNormalized_def pointer_def the_canvas_def at_canvas_def
        normalized_coordinate bbox_contains_def jge_def item_B_def del: fdiv_Num fmul_Num)

subsection \<open>The calibration pass\<close>







subsection \<open>Mask editing\<close>

lemma find_first_index:
  assumes "k < length xs" and "P (xs ! k)" and "\<forall>j<k. \<not> P (xs ! j)"
  shows "find P xs = Some (xs ! k)"
  using assms unfolding find_Some_iff by blast

lemma edit_click_calls:
  assumes "appState a \<noteq> CALIBRATING" and "editMode a" and "selectedItemId a = Some sid"
    and "sid \<noteq> []" and "result a = Some r"
    and "find (\<lambda>i. id' i = sid) (items r) = Some item"
  shows "handleClick (props_of a) (Some cv) cs e =
           [OnMaskUpdate (id' item) (mask' item @ [toNormalized (pointer cv e) cv])]"
  using assms by (simp add: handleClick_def props_of_def)

lemma handleMaskUpdate_items:
  assumes "result a = Some r"
  shows "result (handleMaskUpdate sid m a) =
           Some (r\<lparr>items := map (\<lambda>i. if id' i = sid then i\<lparr>mask' := m\<rparr> else i) (items r)\<rparr>)"
  using assms by (simp add: handleMaskUpdate_def)

lemma clearSelectedMask_items:
  assumes "selectedItemId a = Some sid" and "sid \<noteq> []" and "result a = Some r"
  shows "result (clearSelectedMask a) =
           Some (r\<lparr>items := map (\<lambda>i. if id' i = sid then i\<lparr>mask' := []\<rparr> else i) (items r)\<rparr>)"
  using assms by (simp add: clearSelectedMask_def)

text \<open>
  Claim C6, as the code has it. Not calibrating, in edit mode, with the item at position
  \<open>k\<close> selected and no earlier item carrying its id: a click calls \<open>onMaskUpdate\<close>
  once, with that item's mask followed by the click point in normalized space. In the
  new result the item at \<open>k\<close> is the old one with that mask, so every old vertex is
  kept in place and the new one is last; no item is added or removed and items with
  another id are untouched. Clearing the selected mask leaves every item of the selected
  id with the empty mask and the others untouched.
\<close>

theorem mask_append_and_clear:
  fixes a :: App and cs :: CanvasState and cv :: Canvas and e :: MouseEvent
  defines "pt \<equiv> toNormalized (pointer cv e) cv"
  defines "a' \<equiv> fst (canvas_click (Some cv) e (a, cs))"
  assumes mode: "appState a \<noteq> CALIBRATING" "editMode a"
    and sel: "selectedItemId a = Some sid" "sid \<noteq> []"
    and res: "result a = Some r"
    and k: "k < length (items r)" "id' (items r ! k) = sid" "\<forall>j<k. id' (items r ! j) \<noteq> sid"
  shows "handleClick (props_of a) (Some cv) cs e = [OnMaskUpdate sid (mask' (items r ! k) @ [pt])] \<and>
         (\<exists>r'. result a' = Some r' \<and> length (items r') = length (items r) \<and>
            items r' ! k = (items r ! k)\<lparr>mask' := mask' (items r ! k) @ [pt]\<rparr> \<and>
            mask' (items r' ! k) = mask' (items r ! k) @ [pt] \<and>
            (\<forall>i<length (items r). id' (items r ! i) \<noteq> sid \<longrightarrow> items r' ! i = items r ! i)) \<and>
         (\<exists>r'. result (clearSelectedMask a) = Some r' \<and> length (items r') = length (items r) \<and>
            (\<forall>i<length (items r). id' (items r ! i) = sid \<longrightarrow>
               items r' ! i = (items r ! i)\<lparr>mask' := []\<rparr> \<and> mask' (items r' ! i) = []) \<and>
            (\<forall>i<length (items r). id' (items r ! i) \<noteq> sid \<longrightarrow> items r' ! i = items r ! i))"
proof -
  let ?item = "items r ! k"
  have found: "find (\<lambda>i. id' i = sid) (items r) = Some ?item"
    using k by (intro find_first_index) simp_all
  have calls: "handleClick (props_of a) (Some cv) cs e = [OnMaskUpdate sid (mask' ?item @ [pt])]"
    using edit_click_calls [OF mode sel res found, of cv cs e] k(2) by (simp add: pt_def)
  have a': "a' = handleMaskUpdate sid (mask' ?item @ [pt]) a"
    unfolding a'_def canvas_click_def by (simp add: calls run_calls_def)
  have res': "result a' =
      Some (r\<lparr>items := map (\<lambda>i. if id' i = sid then i\<lparr>mask' := mask' ?item @ [pt]\<rparr> else i) (items r)\<rparr>)"
    unfolding a' by (rule handleMaskUpdate_items [OF res])
  have append: "\<exists>r'. result a' = Some r' \<and> length (items r') = length (items r) \<and>
            items r' ! k = ?item\<lparr>mask' := mask' ?item @ [pt]\<rparr> \<and>
            mask' (items r' ! k) = mask' ?item @ [pt] \<and>
            (\<forall>i<length (items r). id' (items r ! i) \<noteq> sid \<longrightarrow> items r' ! i = items r ! i)"
    unfolding res' using k by simp
  have clear: "\<exists>r'. result (clearSelectedMask a) = Some r' \<and> length (items r') = length (items r) \<and>
            (\<forall>i<length (items r). id' (items r ! i) = sid \<longrightarrow>
               items r' ! i = (items r ! i)\<lparr>mask' := []\<rparr> \<and> mask' (items r' ! i) = []) \<and>
            (\<forall>i<length (items r). id' (items r ! i) \<noteq> sid \<longrightarrow> items r' ! i = items r ! i)"
    unfolding clearSelectedMask_items [OF sel res] by simp
  from calls append clear show ?thesis by blast
qed

text \<open>
  Item \<open>A\<close> selected, its mask \<open>[(0, 0), (10, 0)]\<close>; the click at \<open>(8, 6)\<close> of the
  800 by 600 canvas is the normalized point \<open>(10, 10)\<close>.
\<close>

theorem mask_append_and_clear_witness:
  "appState (fst editing_UI) \<noteq> CALIBRATING \<and> editMode (fst editing_UI) \<and>
   selectedItemId (fst editing_UI) = Some ''A'' \<and>
   map_option (\<lambda>r. mask' (items r ! 0)) (result (fst editing_UI)) =
     Some [\<lparr>x = Num 0, y = Num 0\<rparr>, \<lparr>x = Num 10, y = Num 0\<rparr>] \<and>
   toNormalized (pointer the_canvas (at_canvas 8 6)) the_canvas = \<lparr>x = Num 10, y = Num 10\<rparr> \<and>
   handleClick (props_of (fst editing_UI)) (Some the_canvas) (snd editing_UI) (at_canvas 8 6) =
     [OnMaskUpdate ''A'' [\<lparr>x = Num 0, y = Num 0\<rparr>, \<lparr>x = Num 10, y = Num 0\<rparr>, \<lparr>x = Num 10, y = Num 10\<rparr>]] \<and>
   map_option (\<lambda>r. mask' (items r ! 0))
     (result (fst (canvas_click (Some the_canvas) (at_canvas 8 6) editing_UI))) =
     Some [\<lparr>x = Num 0, y = Num 0\<rparr>, \<lparr>x = Num 10, y = Num 0\<rparr>, \<lparr>x = Num 10, y = Num 10\<rparr>] \<and>
   map_option (\<lambda>r. mask' (items r ! 0)) (result (clearSelectedMask (fst editing_UI))) = Some []"
proof -
  define r where "r = the (result (fst review_UI))"
  have st: "appState (fst editing_UI) \<noteq> CALIBRATING" "editMode (fst editing_UI)"
    and sel: "selectedItemId (fst editing_UI) = Some ''A''" "''A'' \<noteq> []"
    and res: "result (fst editing_UI) = Some r"
    and its: "items r = [item_A, item_B]"
    unfolding r_def by (simp_all add: session_defs handler_defs)
  have k: "0 < length (items r)" "id' (items r ! 0) = ''A''" "\<forall>j<0. id' (items r ! j) \<noteq> ''A''"
    by (simp_all add: its item_A_def)
  have m: "mask' (items r ! 0) = [\<lparr>x = Num 0, y = Num 0\<rparr>, \<lparr>x = Num 10, y = Num 0\<rparr>]"
    by (simp add: its item_A_def)
  have pt: "toNormalized (pointer the_canvas (at_canvas 8 6)) the_canvas = \<lparr>x = Num 10, y = Num 10\<rparr>"
    by (simp add: toNormalized_def pointer_def the_canvas_def at_canvas_def
          normalized_session del: fdiv_Num fmul_Num)
  note inst = mask_append_and_clear [OF st sel res k, where cv = the_canvas and e = "at_canvas 8 6"
      and cs = "snd editing_UI"]
  have c1: "handleClick (props_of (fst editing_UI)) (Some the_canvas) (snd editing_UI) (at_canvas 8 6) =
     [OnMaskUpdate ''A'' [\<lparr>x = Num 0, y = Num 0\<rparr>, \<lparr>x = Num 10, y = Num 0\<rparr>, \<lparr>x = Num 10, y = Num 10\<rparr>]]"
    using inst by (elim conjE) (simp add: m pt)
  have c2: "map_option (\<lambda>r. mask' (items r ! 0))
     (result (fst (canvas_click (Some the_canvas) (at_canvas 8 6) editing_UI))) =
     Some [\<lparr>x = Num 0, y = Num 0\<rparr>, \<lparr>x = Num 10, y = Num 0\<rparr>, \<lparr>x = Num 10, y = Num 10\<rparr>]"
    using inst by (elim conjE exE) (simp add: m pt)
  have c3: "map_option (\<lambda>r. mask' (items r ! 0)) (result (clearSelectedMask (fst editing_UI))) = Some []"
    using inst k by (elim conjE exE) simp
  from st sel res m pt c1 c2 c3 show ?thesis by simp
qed

text \<open>
  Claim C6 as stated fails in two ways. While calibrating: with \<open>A\<close> selected and edit
  mode on, the Scale button and its timer arm calibration, and the click at \<open>(8, 6)\<close>
  goes to the calibration buffer; the mask of \<open>A\<close> stays as it was. With an id carried
  twice: the second item is selected as much as the first, and the click replaces its
  one vertex by the mask of the first item and the click point.
\<close>

theorem click_appends_nothing_or_elsewhere:
  "feasible (to_review @ to_editing @ [ScaleButton, CalibrationTimer,
      CanvasClick (Some the_canvas) (at_canvas 8 6)]) (initial_App, initial_CanvasState) \<and>
   editMode (fst editing_armed_UI) \<and>
   selectedItemId (fst editing_armed_UI) = Some ''A'' \<and>
   handleClick (props_of (fst editing_armed_UI)) (Some the_canvas) (snd editing_armed_UI)
     (at_canvas 8 6) = [SetCalPoints [\<lparr>x = Num 8, y = Num 6\<rparr>]] \<and>
   map_option (\<lambda>r. mask' (items r ! 0))
     (result (fst (canvas_click (Some the_canvas) (at_canvas 8 6) editing_armed_UI))) =
     Some [\<lparr>x = Num 0, y = Num 0\<rparr>, \<lparr>x = Num 10, y = Num 0\<rparr>] \<and>
   feasible (to_review_dup @ to_editing @ [CanvasClick (Some the_canvas) (at_canvas 8 6)])
     (initial_App, initial_CanvasState) \<and>
   appState (fst editing_dup_UI) = REVIEW \<and> editMode (fst editing_dup_UI) \<and>
   selectedItemId (fst editing_dup_UI) = Some ''A'' \<and>
   map_option (\<lambda>r. id' (items r ! 1)) (result (fst editing_dup_UI)) = Some ''A'' \<and>
   map_option (\<lambda>r. mask' (items r ! 1)) (result (fst editing_dup_UI)) =
     Some [\<lparr>x = Num 700, y = Num 700\<rparr>] \<and>
   map_option (\<lambda>r. mask' (items r ! 1))
     (result (fst (canvas_click (Some the_canvas) (at_canvas 8 6) editing_dup_UI))) =
     Some [\<lparr>x = Num 0, y = Num 0\<rparr>, \<lparr>x = Num 10, y = Num 0\<rparr>, \<lparr>x = Num 10, y = Num 10\<rparr>]"
  by (simp add: handler_defs session_defs editing_armed_UI_def editing_dup_UI_def
        to_review_dup_def item_dup_def normalized_session del: fdiv_Num fmul_Num)

subsection \<open>Derived measurements\<close>

lemma round_half_up_close:
  fixes r :: real
  assumes "0 \<le> r"
  shows "\<bar>of_int \<lfloor>r * 100 + 1 / 2\<rfloor> / 100 - r\<bar> \<le> 1 / 200"
proof -
  define n where "n = real_of_int \<lfloor>r * 100 + 1 / 2\<rfloor>"
  have "n \<le> r * 100 + 1 / 2" and "r * 100 + 1 / 2 < n + 1"
    unfolding n_def by linarith+
  then have "\<bar>n / 100 - r\<bar> \<le> 1 / 200"
    by linarith
  then show ?thesis unfolding n_def .
qed

lemma toFixed2_rounds:
  assumes "\<bar>v\<bar> < 10 ^ 21"
  shows "\<exists>n. 0 \<le> n \<and> \<bar>of_int n / 100 - \<bar>v\<bar>\<bar> \<le> 1 / 200 \<and>
           Number_toFixed2 (Num v) =
             (if v < 0 then fneg (fl (of_int n / 100)) else fl (of_int n / 100))"
proof -
  let ?n = "\<lfloor>\<bar>v\<bar> * 100 + 1 / 2\<rfloor>"
  have "0 \<le> ?n" by simp
  moreover have "\<bar>of_int ?n / 100 - \<bar>v\<bar>\<bar> \<le> 1 / 200"
    by (rule round_half_up_close) simp
  moreover have "Number_toFixed2 (Num v) =
      (if v < 0 then fneg (fl (of_int ?n / 100)) else fl (of_int ?n / 100))"
    using assms by simp
  ultimately show ?thesis by blast
qed

lemma updatePhysicalMetrics_values:
  assumes "i < length its" and "boundingBox (its ! i) = (ymin, xmin, ymax, xmax)"
  shows "widthMm (updatePhysicalMetrics its p ! i) =
           Some (Number_toFixed2 (fdiv (fmul (fsub xmax xmin) (Num 5)) p))"
    and "heightMm (updatePhysicalMetrics its p ! i) =
           Some (Number_toFixed2 (fdiv (fmul (fsub ymax ymin) (Num 5)) p))"
  using assms by (simp_all add: updatePhysicalMetrics_def)

lemma updatePhysicalMetrics_idem:
  "updatePhysicalMetrics (updatePhysicalMetrics its p) p = updatePhysicalMetrics its p"
  by (simp add: updatePhysicalMetrics_def split: prod.split)

lemma handleCalibrationUpdate_recomputes:
  "\<exists>ppm. pixelsPerMm (calibration (handleCalibrationUpdate p0 p1 a)) = Some ppm \<and>
     result (handleCalibrationUpdate p0 p1 a) =
       map_option (\<lambda>r. r\<lparr>items := updatePhysicalMetrics (items r) ppm\<rparr>) (result a)"
  by (cases "result a") (simp_all add: handleCalibrationUpdate_def Let_def)

lemma canvas_click_app:
  "calibration (fst (canvas_click canvas e (a, cs))) = calibration a \<or>
   (\<exists>p0 p1. fst (canvas_click canvas e (a, cs)) = handleCalibrationUpdate p0 p1 a)"
  by (cases canvas)
     (auto simp: canvas_click_def handleClick_def run_calls_def Let_def handleMaskUpdate_def
        onItemClick_def split: option.splits)

lemma canvas_move_app: "fst (canvas_move canvas e (a, cs)) = a"
  by (cases canvas)
     (auto simp: canvas_move_def handleMouseMove_def run_calls_def split: option.splits)

lemma step_calibration:
  "pixelsPerMm (calibration (fst (step ev (a, cs)))) = pixelsPerMm (calibration a) \<or>
   (\<exists>p0 p1. fst (step ev (a, cs)) = handleCalibrationUpdate p0 p1 a)"
proof (cases ev)
  case (CanvasClick canvas e)
  then show ?thesis using canvas_click_app [of canvas e a cs] by auto
next
  case (CanvasMove canvas e)
  then show ?thesis by (simp add: canvas_move_app)
next
  case (AnalysisDone cal outcome)
  then show ?thesis by (cases outcome) (simp_all add: processBatch_done_def)
qed (simp_all add: handler_defs split: option.split)

text \<open>
  Claim C7. \<open>updatePhysicalMetrics\<close> gives every item (so every item with a
  non-empty mask) \<open>widthMm\<close> and \<open>heightMm\<close> computed from its bounding box and
  \<open>pixelsPerMm\<close> alone: the box width or height times 5, divided by \<open>pixelsPerMm\<close>,
  through \<open>Number(v.toFixed(2))\<close>. When the quotient is a finite value \<open>v\<close> below
  \<open>10\<^sup>2\<^sup>1\<close> in magnitude, the measurement is the number nearest to a decimal \<open>n / 100\<close>
  that is within 0.005 of \<open>\<bar>v\<bar>\<close>, with the sign of \<open>v\<close>. Applying the same
  \<open>pixelsPerMm\<close> twice changes nothing more. Every completed calibration pass replaces
  the items by their update under the factor it stores, and no event of the page
  changes the stored factor in any other way.
\<close>

theorem measurements_recomputed:
  "(\<forall>i<length its. case boundingBox (its ! i) of (ymin, xmin, ymax, xmax) \<Rightarrow>
       widthMm (updatePhysicalMetrics its p ! i) =
         Some (Number_toFixed2 (fdiv (fmul (fsub xmax xmin) (Num 5)) p)) \<and>
       heightMm (updatePhysicalMetrics its p ! i) =
         Some (Number_toFixed2 (fdiv (fmul (fsub ymax ymin) (Num 5)) p))) \<and>
   (\<forall>i<length its. \<forall>ymin xmin ymax xmax v.
       boundingBox (its ! i) = (ymin, xmin, ymax, xmax) \<and>
       fdiv (fmul (fsub xmax xmin) (Num 5)) p = Num v \<and> \<bar>v\<bar> < 10 ^ 21 \<longrightarrow>
       (\<exists>n. 0 \<le> n \<and> \<bar>of_int n / 100 - \<bar>v\<bar>\<bar> \<le> 1 / 200 \<and>
          widthMm (updatePhysicalMetrics its p ! i) =
            Some (if v < 0 then fneg (fl (of_int n / 100)) else fl (of_int n / 100)))) \<and>
   (\<forall>i<length its. \<forall>ymin xmin ymax xmax v.
       boundingBox (its ! i) = (ymin, xmin, ymax, xmax) \<and>
       fdiv (fmul (fsub ymax ymin) (Num 5)) p = Num v \<and> \<bar>v\<bar> < 10 ^ 21 \<longrightarrow>
       (\<exists>n. 0 \<le> n \<and> \<bar>of_int n / 100 - \<bar>v\<bar>\<bar> \<le> 1 / 200 \<and>
          heightMm (updatePhysicalMetrics its p ! i) =
            Some (if v < 0 then fneg (fl (of_int n / 100)) else fl (of_int n / 100)))) \<and>
   updatePhysicalMetrics (updatePhysicalMetrics its p) p = updatePhysicalMetrics its p \<and>
   (\<exists>ppm. pixelsPerMm (calibration (handleCalibrationUpdate p0 p1 a)) = Some ppm \<and>
      result (handleCalibrationUpdate p0 p1 a) =
        map_option (\<lambda>r. r\<lparr>items := updatePhysicalMetrics (items r) ppm\<rparr>) (result a)) \<and>
   (pixelsPerMm (calibration (fst (step ev ui))) \<noteq> pixelsPerMm (calibration (fst ui)) \<longrightarrow>
      (\<exists>ppm. pixelsPerMm (calibration (fst (step ev ui))) = Some ppm \<and>
         result (fst (step ev ui)) =
           map_option (\<lambda>r. r\<lparr>items := updatePhysicalMetrics (items r) ppm\<rparr>) (result (fst ui))))"
proof -
  have formula: "case boundingBox (its ! i) of (ymin, xmin, ymax, xmax) \<Rightarrow>
       widthMm (updatePhysicalMetrics its p ! i) =
         Some (Number_toFixed2 (fdiv (fmul (fsub xmax xmin) (Num 5)) p)) \<and>
       heightMm (updatePhysicalMetrics its p ! i) =
         Some (Number_toFixed2 (fdiv (fmul (fsub ymax ymin) (Num 5)) p))"
    if "i < length its" for i
    using that by (simp add: updatePhysicalMetrics_def split: prod.split)
  have wide: "\<exists>n. 0 \<le> n \<and> \<bar>of_int n / 100 - \<bar>v\<bar>\<bar> \<le> 1 / 200 \<and>
          widthMm (updatePhysicalMetrics its p ! i) =
            Some (if v < 0 then fneg (fl (of_int n / 100)) else fl (of_int n / 100))"
    if i: "i < length its"
      and h: "boundingBox (its ! i) = (ymin, xmin, ymax, xmax) \<and>
       fdiv (fmul (fsub xmax xmin) (Num 5)) p = Num v \<and> \<bar>v\<bar> < 10 ^ 21"
    for i ymin xmin ymax xmax v
  proof -
    from h have bb: "boundingBox (its ! i) = (ymin, xmin, ymax, xmax)"
      and q: "fdiv (fmul (fsub xmax xmin) (Num 5)) p = Num v" and bv: "\<bar>v\<bar> < 10 ^ 21"
      by simp_all
    show ?thesis
      using toFixed2_rounds [OF bv] updatePhysicalMetrics_values(1) [OF i bb, of p]
      unfolding q by auto
  qed
  have high: "\<exists>n. 0 \<le> n \<and> \<bar>of_int n / 100 - \<bar>v\<bar>\<bar> \<le> 1 / 200 \<and>
          heightMm (updatePhysicalMetrics its p ! i) =
            Some (if v < 0 then fneg (fl (of_int n / 100)) else fl (of_int n / 100))"
    if i: "i < length its"
      and h: "boundingBox (its ! i) = (ymin, xmin, ymax, xmax) \<and>
       fdiv (fmul (fsub ymax ymin) (Num 5)) p = Num v \<and> \<bar>v\<bar> < 10 ^ 21"
    for i ymin xmin ymax xmax v
  proof -
    from h have bb: "boundingBox (its ! i) = (ymin, xmin, ymax, xmax)"
      and q: "fdiv (fmul (fsub ymax ymin) (Num 5)) p = Num v" and bv: "\<bar>v\<bar> < 10 ^ 21"
      by simp_all
    show ?thesis
      using toFixed2_rounds [OF bv] updatePhysicalMetrics_values(2) [OF i bb, of p]
      unfolding q by auto
  qed
  have changed: "\<exists>ppm. pixelsPerMm (calibration (fst (step ev ui))) = Some ppm \<and>
         result (fst (step ev ui)) =
           map_option (\<lambda>r. r\<lparr>items := updatePhysicalMetrics (items r) ppm\<rparr>) (result (fst ui))"
    if neq: "pixelsPerMm (calibration (fst (step ev ui))) \<noteq> pixelsPerMm (calibration (fst ui))"
  proof -
    obtain a' cs' where ui: "ui = (a', cs')" by (cases ui)
    from step_calibration [of ev a' cs'] neq obtain q0 q1
      where "fst (step ev ui) = handleCalibrationUpdate q0 q1 (fst ui)"
      unfolding ui by auto
    then show ?thesis using handleCalibrationUpdate_recomputes [of q0 q1 "fst ui"] by simp
  qed
  from formula wide high updatePhysicalMetrics_idem [of its p]
    handleCalibrationUpdate_recomputes [of p0 p1 a] changed
  show ?thesis by blast
qed

text \<open>
  Item \<open>A\<close>, 500 normalized units wide, at 3 pixels per millimetre: the quotient
  \<open>2500 / 3\<close> is computed as \<open>833.3333333333334\<close> and becomes the number nearest to
  833.33. A box 201 units wide at 1000 pixels per millimetre: \<open>1005 / 1000\<close> is computed
  as \<open>1.00499999999999989\<close> and becomes 1. The second click of the session's
  calibration changes the factor from none to 5 and the items of the result are the
  update of the old ones under 5.
\<close>

theorem measurements_recomputed_witness:
  "boundingBox ([item_A, item_B] ! 0) = (Num 0, Num 0, Num 500, Num 500) \<and>
   fdiv (fmul (fsub (Num 500) (Num 0)) (Num 5)) (Num 3) = Num (7330077518506667 / 8796093022208) \<and>
   widthMm (updatePhysicalMetrics [item_A, item_B] (Num 3) ! 0) = Some (fl (83333 / 100)) \<and>
   heightMm (updatePhysicalMetrics [item_A, item_B] (Num 3) ! 0) = Some (fl (83333 / 100)) \<and>
   (\<exists>n. 0 \<le> n \<and> \<bar>of_int n / 100 - 7330077518506667 / 8796093022208\<bar> \<le> (1 / 200 :: real) \<and>
        widthMm (updatePhysicalMetrics [item_A, item_B] (Num 3) ! 0) = Some (fl (of_int n / 100))) \<and>
   (\<exists>n. 0 \<le> n \<and> \<bar>of_int n / 100 - 7330077518506667 / 8796093022208\<bar> \<le> (1 / 200 :: real) \<and>
        heightMm (updatePhysicalMetrics [item_A, item_B] (Num 3) ! 0) = Some (fl (of_int n / 100))) \<and>
   fdiv (fmul (fsub (Num 201) (Num 0)) (Num 5)) (Num 1000) =
     Num (1131529406376837 / 1125899906842624) \<and>
   widthMm (updatePhysicalMetrics [item_B\<lparr>boundingBox := (Num 0, Num 0, Num 500, Num 201)\<rparr>]
              (Num 1000) ! 0) = Some (Num 1) \<and>
   updatePhysicalMetrics (updatePhysicalMetrics [item_A, item_B] (Num 3)) (Num 3) =
     updatePhysicalMetrics [item_A, item_B] (Num 3) \<and>
   pixelsPerMm (calibration (fst (canvas_click (Some the_canvas) (at_canvas 0 0) armed_UI))) = None \<and>
   pixelsPerMm (calibration (fst (step (CanvasClick (Some the_canvas) (at_canvas 30 40))
       (canvas_click (Some the_canvas) (at_canvas 0 0) armed_UI)))) = Some (Num 5) \<and>
   result (fst (step (CanvasClick (Some the_canvas) (at_canvas 30 40))
       (canvas_click (Some the_canvas) (at_canvas 0 0) armed_UI))) =
     map_option (\<lambda>r. r\<lparr>items := updatePhysicalMetrics (items r) (Num 5)\<rparr>)
       (result (fst (canvas_click (Some the_canvas) (at_canvas 0 0) armed_UI)))"
proof -
  let ?its = "[item_A, item_B]"
  let ?one = "[item_B\<lparr>boundingBox := (Num 0, Num 0, Num 500, Num 201)\<rparr>]"
  let ?v = "7330077518506667 / 8796093022208 :: real"
  let ?half = "canvas_click (Some the_canvas) (at_canvas 0 0) armed_UI"
  let ?ev = "CanvasClick (Some the_canvas) (at_canvas 30 40)"
  note inst = measurements_recomputed [of ?its "Num 3" "\<lparr>x = Num 0, y = Num 0\<rparr>"
      "\<lparr>x = Num 30, y = Num 40\<rparr>" "fst armed_UI" ?ev ?half]
  note inst1 = measurements_recomputed [of ?one "Num 1000" "\<lparr>x = Num 0, y = Num 0\<rparr>"
      "\<lparr>x = Num 30, y = Num 40\<rparr>" "fst armed_UI" ?ev ?half]
  have i: "0 < length ?its" and i1: "0 < length ?one" by simp_all
  have bb: "boundingBox (?its ! 0) = (Num 0, Num 0, Num 500, Num 500)"
    by (simp add: item_A_def)
  have "fl (2500 / 3) = Num ?v"
    by (subst fl_eval[of 9]) (simp_all add: pow2_def round_even_def Let_def signed_inf_def)
  then have q: "fdiv (fmul (fsub (Num 500) (Num 0)) (Num 5)) (Num 3) = Num ?v"
    by simp
  have "fl (201 / 200) = Num (1131529406376837 / 1125899906842624)"
    by (subst fl_eval[of 0]) (simp_all add: pow2_def round_even_def Let_def signed_inf_def)
  then have q1: "fdiv (fmul (fsub (Num 201) (Num 0)) (Num 5)) (Num 1000) =
      Num (1131529406376837 / 1125899906842624)"
    by simp
  have fixed: "Number_toFixed2 (Num ?v) = fl (83333 / 100)"
    "Number_toFixed2 (Num (1131529406376837 / 1125899906842624)) = Num 1"
    by simp_all
  have vals: "widthMm (updatePhysicalMetrics ?its (Num 3) ! 0) = Some (fl (83333 / 100))"
    "heightMm (updatePhysicalMetrics ?its (Num 3) ! 0) = Some (fl (83333 / 100))"
    using inst [THEN conjunct1, rule_format, OF i] bb by (simp_all only: q fixed prod.case)
  have val1: "widthMm (updatePhysicalMetrics ?one (Num 1000) ! 0) = Some (Num 1)"
    using inst1 [THEN conjunct1, rule_format, OF i1] by (simp add: q1 fixed del: fsub_Num fmul_Num fdiv_Num)
  have hyp: "boundingBox (?its ! 0) = (Num 0, Num 0, Num 500, Num 500) \<and>
      fdiv (fmul (fsub (Num 500) (Num 0)) (Num 5)) (Num 3) = Num ?v \<and> \<bar>?v\<bar> < 10 ^ 21"
    using bb q by simp
  have wide: "\<exists>n. 0 \<le> n \<and> \<bar>of_int n / 100 - ?v\<bar> \<le> (1 / 200 :: real) \<and>
        widthMm (updatePhysicalMetrics ?its (Num 3) ! 0) = Some (fl (of_int n / 100))"
    using inst [THEN conjunct2, THEN conjunct1, rule_format, OF i hyp] by simp
  have high: "\<exists>n. 0 \<le> n \<and> \<bar>of_int n / 100 - ?v\<bar> \<le> (1 / 200 :: real) \<and>
        heightMm (updatePhysicalMetrics ?its (Num 3) ! 0) = Some (fl (of_int n / 100))"
    using inst [THEN conjunct2, THEN conjunct2, THEN conjunct1, rule_format, OF i hyp] by simp
  note idem = inst [THEN conjunct2, THEN conjunct2, THEN conjunct2, THEN conjunct1]
  have before: "pixelsPerMm (calibration (fst ?half)) = None"
    and after: "pixelsPerMm (calibration (fst (step ?ev ?half))) = Some (Num 5)"
    by (simp_all add: session_defs handler_defs)
  have neq: "pixelsPerMm (calibration (fst (step ?ev ?half))) \<noteq> pixelsPerMm (calibration (fst ?half))"
    unfolding before after by simp
  from inst [THEN conjunct2, THEN conjunct2, THEN conjunct2, THEN conjunct2, THEN conjunct2,
      rule_format, OF neq]
  obtain ppm where ppm: "pixelsPerMm (calibration (fst (step ?ev ?half))) = Some ppm"
    and res: "result (fst (step ?ev ?half)) =
      map_option (\<lambda>r. r\<lparr>items := updatePhysicalMetrics (items r) ppm\<rparr>) (result (fst ?half))"
    by (elim exE conjE)
  from ppm after have "ppm = Num 5" by simp
  with res have recomputed: "result (fst (step ?ev ?half)) =
      map_option (\<lambda>r. r\<lparr>items := updatePhysicalMetrics (items r) (Num 5)\<rparr>) (result (fst ?half))"
    by simp
  show ?thesis
    by (intro conjI) (rule bb q vals wide high q1 val1 idem before after recomputed)+
qed

subsection \<open>Selection by click\<close>







subsection \<open>The service boundary\<close>

lemma those_Some_iff: "those xs = Some ys \<longleftrightarrow> xs = map Some ys"
proof (induction xs arbitrary: ys)
  case Nil
  show ?case by auto
next
  case (Cons z zs)
  show ?case
  proof (cases z)
    case None
    then show ?thesis by auto
  next
    case (Some v)
    then show ?thesis using Cons.IH by (cases ys) auto
  qed
qed

lemma those_None_iff: "those xs = None \<longleftrightarrow> None \<in> set xs"
proof (induction xs)
  case Nil
  show ?case by simp
next
  case (Cons z zs)
  then show ?case by (cases z) auto
qed

lemma analyzeItems_items:
  "analyzeItems (Some (map Some its)) mode latency = Inr r \<Longrightarrow>
   raw_items r = its \<and> totalCount (raw_summary r) = length its"
  using those_Some_iff[of "map Some its" its]
  by (auto simp add: analyzeItems_def Let_def)

lemma as_AnalysisResult_items:
  assumes "\<forall>s\<in>set (raw_items r). raw_boundingBox s \<noteq> None"
  shows "\<exists>analysis. as_AnalysisResult r = Some analysis \<and>
           map id' (items analysis) = map raw_id (raw_items r) \<and>
           map (\<lambda>s. Some (boundingBox s)) (items analysis) = map raw_boundingBox (raw_items r) \<and>
           map mask' (items analysis) = map raw_mask (raw_items r)"
proof -
  have "\<exists>its. those (map as_ItemInstance rs) = Some its \<and>
           map id' its = map raw_id rs \<and>
           map (\<lambda>s. Some (boundingBox s)) its = map raw_boundingBox rs \<and>
           map mask' its = map raw_mask rs"
    if "\<forall>s\<in>set rs. raw_boundingBox s \<noteq> None" for rs
    using that
  proof (induction rs)
    case Nil
    show ?case by simp
  next
    case (Cons s rs)
    then obtain box where "raw_boundingBox s = Some box" by auto
    with Cons show ?case by (auto simp add: as_ItemInstance_def)
  qed
  from this [OF assms] show ?thesis by (auto simp add: as_AnalysisResult_def)
qed

lemma as_AnalysisResult_none:
  assumes "s \<in> set (raw_items r)" and "raw_boundingBox s = None"
  shows "as_AnalysisResult r = None"
proof -
  have "as_ItemInstance s = None" using assms(2) by (simp add: as_ItemInstance_def)
  then have "None \<in> set (map as_ItemInstance (raw_items r))"
    using assms(1) by force
  then have "those (map as_ItemInstance (raw_items r)) = None"
    by (simp only: those_None_iff)
  then show ?thesis by (simp add: as_AnalysisResult_def)
qed

lemma stored_items_rendered:
  "\<exists>r'. result (processBatch_done cal (Inr analysis) a) = Some r' \<and>
        map id' (items r') = map id' (items analysis) \<and>
        map boundingBox (items r') = map boundingBox (items analysis) \<and>
        map mask' (items r') = map mask' (items analysis) \<and>
        rendered_items (props_of (processBatch_done cal (Inr analysis) a)) = items r'"
proof -
  let ?a' = "processBatch_done cal (Inr analysis) a"
  have st: "appState ?a' = REVIEW"
    by (simp add: processBatch_done_def)
  show ?thesis
  proof (cases "pixelsPerMm cal")
    case None
    then have "result ?a' = Some analysis"
      by (simp add: processBatch_done_def)
    then show ?thesis
      by (simp add: rendered_items_def props_of_def st)
  next
    case (Some pxMm)
    show ?thesis
    proof (cases "truthy_num (Some pxMm)")
      case True
      with Some have "result ?a' =
          Some (analysis\<lparr>items := updatePhysicalMetrics (items analysis) pxMm\<rparr>)"
        by (simp add: processBatch_done_def)
      then show ?thesis
        by (simp add: rendered_items_def props_of_def st updatePhysicalMetrics_def comp_def
              split: prod.split)
    next
      case False
      with Some have "result ?a' = Some analysis"
        by (simp add: processBatch_done_def)
      then show ?thesis
        by (simp add: rendered_items_def props_of_def st)
    qed
  qed
qed

text \<open>
  Claim C9, as the code has it. Nothing validates an entry. \<open>analyzeItems\<close> throws when
  the reply has no item list or holds a \<open>null\<close> entry; otherwise it returns the entries
  of the reply, all of them, unchanged and in order, whether or not they have a
  bounding box and whatever its coordinates. When every entry has its bounding box,
  \<open>processBatch\<close> stores the result (with the measurements added when a scale is known)
  and every entry is in the list that \<open>render\<close> iterates over, with its id, box and mask
  as received. When an entry lacks its bounding box and a scale is known, the exception
  of \<open>updatePhysicalMetrics\<close> fails the batch as a whole: the state is \<open>IDLE\<close> and the
  previous result is kept.
\<close>

theorem analyzeItems_passes_all:
  "analyzeItems None mode latency = Inl TypeError \<and>
   (None \<in> set entries \<longrightarrow>
      analyzeItems (Some entries) mode latency = Inl TypeError \<and>
      processBatch_reply cal (Inl TypeError) = Some (Inl TypeError)) \<and>
   (\<exists>r. analyzeItems (Some (map Some its)) mode latency = Inr r \<and> raw_items r = its \<and>
        totalCount (raw_summary r) = length its) \<and>
   ((\<forall>s\<in>set its. raw_boundingBox s \<noteq> None) \<longrightarrow>
      (\<exists>analysis r'.
         processBatch_reply cal (analyzeItems (Some (map Some its)) mode latency) =
           Some (Inr analysis) \<and>
         result (processBatch_done cal (Inr analysis) a) = Some r' \<and>
         map id' (items r') = map raw_id its \<and>
         map (\<lambda>s. Some (boundingBox s)) (items r') = map raw_boundingBox its \<and>
         map mask' (items r') = map raw_mask its \<and>
         rendered_items (props_of (processBatch_done cal (Inr analysis) a)) = items r')) \<and>
   ((\<exists>s\<in>set its. raw_boundingBox s = None) \<and> truthy_num (pixelsPerMm cal) \<longrightarrow>
      processBatch_reply cal (analyzeItems (Some (map Some its)) mode latency) =
        Some (Inl TypeError) \<and>
      appState (processBatch_done cal (Inl TypeError) a) = IDLE \<and>
      result (processBatch_done cal (Inl TypeError) a) = result a)"
proof -
  have absent: "analyzeItems None mode latency = Inl TypeError"
    by (simp add: analyzeItems_def)
  have null: "analyzeItems (Some entries) mode latency = Inl TypeError \<and>
      processBatch_reply cal (Inl TypeError) = Some (Inl TypeError)"
    if "None \<in> set entries"
    using that those_None_iff [of entries]
    by (simp add: analyzeItems_def processBatch_reply_def)
  have "those (map Some its) = Some its" by (simp add: those_Some_iff)
  then obtain r where r: "analyzeItems (Some (map Some its)) mode latency = Inr r"
    and its: "raw_items r = its" and n: "totalCount (raw_summary r) = length its"
    by (simp add: analyzeItems_def Let_def)
  have typed: "\<exists>analysis r'.
         processBatch_reply cal (analyzeItems (Some (map Some its)) mode latency) =
           Some (Inr analysis) \<and>
         result (processBatch_done cal (Inr analysis) a) = Some r' \<and>
         map id' (items r') = map raw_id its \<and>
         map (\<lambda>s. Some (boundingBox s)) (items r') = map raw_boundingBox its \<and>
         map mask' (items r') = map raw_mask its \<and>
         rendered_items (props_of (processBatch_done cal (Inr analysis) a)) = items r'"
    if boxes: "\<forall>s\<in>set its. raw_boundingBox s \<noteq> None"
  proof -
    from as_AnalysisResult_items [of r] boxes its
    obtain analysis where an: "as_AnalysisResult r = Some analysis"
      and ids: "map id' (items analysis) = map raw_id its"
      and bxs: "map (\<lambda>s. Some (boundingBox s)) (items analysis) = map raw_boundingBox its"
      and mks: "map mask' (items analysis) = map raw_mask its"
      by auto
    have reply: "processBatch_reply cal (analyzeItems (Some (map Some its)) mode latency) =
        Some (Inr analysis)"
      by (simp add: r processBatch_reply_def an)
    from stored_items_rendered [of cal analysis a]
    obtain r' where r': "result (processBatch_done cal (Inr analysis) a) = Some r'"
      and ids': "map id' (items r') = map id' (items analysis)"
      and bxs': "map boundingBox (items r') = map boundingBox (items analysis)"
      and mks': "map mask' (items r') = map mask' (items analysis)"
      and rnd: "rendered_items (props_of (processBatch_done cal (Inr analysis) a)) = items r'"
      by blast
    have "map (\<lambda>s. Some (boundingBox s)) (items r') = map Some (map boundingBox (items r'))"
      by simp
    also have "\<dots> = map (\<lambda>s. Some (boundingBox s)) (items analysis)"
      by (simp add: bxs')
    finally have "map (\<lambda>s. Some (boundingBox s)) (items r') = map raw_boundingBox its"
      by (simp add: bxs)
    with reply r' ids ids' mks mks' rnd show ?thesis by auto
  qed
  have thrown: "processBatch_reply cal (analyzeItems (Some (map Some its)) mode latency) =
        Some (Inl TypeError) \<and>
      appState (processBatch_done cal (Inl TypeError) a) = IDLE \<and>
      result (processBatch_done cal (Inl TypeError) a) = result a"
    if h: "(\<exists>s\<in>set its. raw_boundingBox s = None) \<and> truthy_num (pixelsPerMm cal)"
  proof -
    from h obtain s where "s \<in> set (raw_items r)" "raw_boundingBox s = None"
      using its by auto
    then have "as_AnalysisResult r = None" by (rule as_AnalysisResult_none)
    with h show ?thesis by (simp add: r processBatch_reply_def processBatch_done_def)
  qed
  from absent null r its n typed thrown show ?thesis by blast
qed

text \<open>
  A reply with a \<open>null\<close> entry; the reply whose entry has an infinite coordinate, with no
  scale known; and item \<open>A\<close> arriving without its bounding box when the scale is 5.
\<close>

theorem analyzeItems_passes_all_witness:
  "None \<in> set [None :: RawItem option] \<and>
   analyzeItems (Some [None]) PRO (Num 1200) = Inl TypeError \<and>
   raw_boundingBox (entry_of item_off) = Some (Num 0, Num 0, PosInf, Num 10) \<and>
   (\<exists>analysis r'.
      processBatch_reply (calibration initial_App)
        (analyzeItems (Some [Some (entry_of item_off)]) PRO (Num 1200)) = Some (Inr analysis) \<and>
      result (processBatch_done (calibration initial_App) (Inr analysis) initial_App) = Some r' \<and>
      map id' (items r') = [''C''] \<and>
      map boundingBox (items r') = [(Num 0, Num 0, PosInf, Num 10)] \<and>
      rendered_items (props_of (processBatch_done (calibration initial_App) (Inr analysis)
        initial_App)) = items r') \<and>
   raw_boundingBox ((entry_of item_A)\<lparr>raw_boundingBox := None\<rparr>) = None \<and>
   truthy_num (pixelsPerMm ((calibration initial_App)\<lparr>pixelsPerMm := Some (Num 5)\<rparr>)) \<and>
   processBatch_reply ((calibration initial_App)\<lparr>pixelsPerMm := Some (Num 5)\<rparr>)
     (analyzeItems (Some [Some ((entry_of item_A)\<lparr>raw_boundingBox := None\<rparr>)]) PRO (Num 1200)) =
     Some (Inl TypeError) \<and>
   appState (processBatch_done ((calibration initial_App)\<lparr>pixelsPerMm := Some (Num 5)\<rparr>)
     (Inl TypeError) initial_App) = IDLE"
proof -
  let ?cal = "calibration initial_App"
  let ?cal5 = "(calibration initial_App)\<lparr>pixelsPerMm := Some (Num 5)\<rparr>"
  let ?nobox = "(entry_of item_A)\<lparr>raw_boundingBox := None\<rparr>"
  note inst = analyzeItems_passes_all [where entries = "[None]" and its = "[entry_of item_off]"
      and cal = ?cal and mode = PRO and latency = "Num 1200" and a = initial_App]
  note inst5 = analyzeItems_passes_all [where entries = "[None]" and its = "[?nobox]"
      and cal = ?cal5 and mode = PRO and latency = "Num 1200" and a = initial_App]
  have null: "None \<in> set [None :: RawItem option]" by simp
  have c1: "analyzeItems (Some [None]) PRO (Num 1200) = Inl TypeError"
    using inst [THEN conjunct2, THEN conjunct1, THEN mp, OF null] by simp
  have box: "raw_boundingBox (entry_of item_off) = Some (Num 0, Num 0, PosInf, Num 10)"
    by (simp add: entry_of_def item_off_def)
  have boxes: "\<forall>s\<in>set [entry_of item_off]. raw_boundingBox s \<noteq> None"
    using box by simp
  from inst [THEN conjunct2, THEN conjunct2, THEN conjunct2, THEN conjunct1, THEN mp, OF boxes]
  obtain analysis r' where
    "processBatch_reply ?cal (analyzeItems (Some (map Some [entry_of item_off])) PRO (Num 1200)) =
       Some (Inr analysis)"
    "result (processBatch_done ?cal (Inr analysis) initial_App) = Some r'"
    "map id' (items r') = map raw_id [entry_of item_off]"
    "map (\<lambda>s. Some (boundingBox s)) (items r') = map raw_boundingBox [entry_of item_off]"
    "rendered_items (props_of (processBatch_done ?cal (Inr analysis) initial_App)) = items r'"
    by blast
  then have c2: "\<exists>analysis r'.
      processBatch_reply ?cal (analyzeItems (Some [Some (entry_of item_off)]) PRO (Num 1200)) =
        Some (Inr analysis) \<and>
      result (processBatch_done ?cal (Inr analysis) initial_App) = Some r' \<and>
      map id' (items r') = [''C''] \<and>
      map boundingBox (items r') = [(Num 0, Num 0, PosInf, Num 10)] \<and>
      rendered_items (props_of (processBatch_done ?cal (Inr analysis) initial_App)) = items r'"
    by (auto simp add: entry_of_def item_off_def)
  have nobox: "raw_boundingBox ?nobox = None" by simp
  have scale: "truthy_num (pixelsPerMm ?cal5)" by simp
  have h: "(\<exists>s\<in>set [?nobox]. raw_boundingBox s = None) \<and> truthy_num (pixelsPerMm ?cal5)"
    by simp
  note thrown = inst5 [THEN conjunct2, THEN conjunct2, THEN conjunct2, THEN conjunct2,
      THEN mp, OF h]
  have c3: "processBatch_reply ?cal5 (analyzeItems (Some [Some ?nobox]) PRO (Num 1200)) =
      Some (Inl TypeError)"
    using thrown [THEN conjunct1] by simp
  have c4: "appState (processBatch_done ?cal5 (Inl TypeError) initial_App) = IDLE"
    using thrown [THEN conjunct2, THEN conjunct1] .
  show ?thesis
    by (intro conjI) (rule null c1 box c2 nobox scale c3 c4)+
qed

text \<open>
  Claim C9 as stated fails: a reply whose only entry has an infinite box coordinate goes
  through the upload, the analysis and its completion, and the entry is the list that
  \<open>render\<close> iterates over.
\<close>

theorem non_finite_box_is_rendered:
  "feasible to_review_off (initial_App, initial_CanvasState) \<and>
   \<not> finite_box item_off \<and>
   rendered_items (props_of (fst (run to_review_off (initial_App, initial_CanvasState)))) =
     [item_off]"
  by (simp add: handler_defs session_defs rendered_items_def finite_box_def item_off_def
        to_review_off_def)

subsection \<open>Arming calibration\<close>




subsection \<open>The click buffer across passes\<close>

text \<open>
  Claim C2 at a pass abandoned after its first click. The Cancel button leaves
  calibration, and the buffer of the canvas still holds the point. Arming again does
  not empty it, and the first click of the next pass completes that pass, with the
  point of the abandoned one as its start.
\<close>

theorem cancel_keeps_buffered_point:
  "feasible (to_review @ abandoned_pass @ next_pass) (initial_App, initial_CanvasState) \<and>
   appState (fst (run abandoned_pass review_UI)) = REVIEW \<and>
   calPoints (snd (run abandoned_pass review_UI)) = [\<lparr>x = Num 30, y = Num 40\<rparr>] \<and>
   appState (fst (run (abandoned_pass @ [ScaleButton, CalibrationTimer]) review_UI)) = CALIBRATING \<and>
   calPoints (snd (run (abandoned_pass @ [ScaleButton, CalibrationTimer]) review_UI)) =
     [\<lparr>x = Num 30, y = Num 40\<rparr>] \<and>
   appState (fst (run (abandoned_pass @ next_pass) review_UI)) = REVIEW \<and>
   calibration (fst (run (abandoned_pass @ next_pass) review_UI)) =
     \<lparr>referenceLengthMm = Num 10, pixelsPerMm = Some (Num 5),
      startPoint = Some \<lparr>x = Num 30, y = Num 40\<rparr>, endPoint = Some \<lparr>x = Num 60, y = Num 80\<rparr>\<rparr>"
  by (simp add: handler_defs session_defs abandoned_pass_def next_pass_def)

end
